theory Spec2Isabelle
  imports Main "HOL-Library.AList" "HOL-Library.Word"
begin

section \<open>Python values, exceptions and responses\<close>

text \<open>
  The handlers of \<^verbatim>\<open>app/routes\<close> receive JSON bodies and form fields and talk to a
  MongoDB driver. A value is what \<^verbatim>\<open>request.get_json()\<close> or the driver hands to the
  handler: None, a boolean, an integer, a string, a list, a dictionary with string keys
  (an association list in insertion order), an ObjectId (its 24 hexadecimal digits) or a
  datetime (its text). Python floats are not represented: a JSON number with a fraction is
  outside the model, and the one float the translator itself creates has its own clause below.
  Strings are lists of 8-bit characters.
\<close>

datatype pyval =
    PNone
  | PBool bool
  | PInt int
  | PStr string
  | PList "pyval list"
  | PDict "(string \<times> pyval) list"
  | PObjectId string
  | PDateTime string

text \<open>The exceptions that the modelled code paths can raise.\<close>

datatype exc =
    NameError string
  | ValueError
  | TypeError
  | AttributeError
  | KeyError
  | StopIteration
  | InvalidId
  | InvalidDocument
  | DuplicateKeyError
  | InvalidFile
  | OperationFailure
  | OverflowError
  | Exception string

text \<open>
  A response is a status code and a body. \<open>ErrorOf e\<close> is the body
  \<^verbatim>\<open>{"error": str(e)}\<close> that every catch-all handler builds.
\<close>

datatype body = Json pyval | ErrorOf exc

type_synonym response = "nat \<times> body"

text \<open>Python truthiness, as used by \<^verbatim>\<open>if v\<close> and \<^verbatim>\<open>not v\<close>.\<close>

fun truthy :: "pyval \<Rightarrow> bool" where
  "truthy PNone = False"
| "truthy (PBool b) = b"
| "truthy (PInt n) = (n \<noteq> 0)"
| "truthy (PStr s) = (s \<noteq> [])"
| "truthy (PList xs) = (xs \<noteq> [])"
| "truthy (PDict d) = (d \<noteq> [])"
| "truthy (PObjectId h) = True"
| "truthy (PDateTime t) = True"

text \<open>\<^verbatim>\<open>d.get(k, default)\<close> on a dictionary.\<close>

definition dict_get :: "(string \<times> pyval) list \<Rightarrow> string \<Rightarrow> pyval \<Rightarrow> pyval" where
  "dict_get d k dflt = (case map_of d k of None \<Rightarrow> dflt | Some v \<Rightarrow> v)"

subsection \<open>Characters and strings\<close>

definition code_of :: "char \<Rightarrow> nat" where
  "code_of c = of_char c"

text \<open>Whitespace as \<^verbatim>\<open>str.strip()\<close> and \<^verbatim>\<open>int()\<close> see it, on 8-bit characters.\<close>

definition py_isspace :: "char \<Rightarrow> bool" where
  "py_isspace c = (code_of c \<in> {9, 10, 11, 12, 13, 28, 29, 30, 31, 32, 133, 160})"

definition py_strip :: "string \<Rightarrow> string" where
  "py_strip s = rev (dropWhile py_isspace (rev (dropWhile py_isspace s)))"

definition is_digit :: "char \<Rightarrow> bool" where
  "is_digit c = (c \<in> set ''0123456789'')"

definition digit_val :: "char \<Rightarrow> nat" where
  "digit_val c = code_of c - 48"

text \<open>\<^verbatim>\<open>str.lower()\<close>: the letters A to Z move to a to z, every other 8-bit character
  stays.\<close>

definition lower_char :: "char \<Rightarrow> char" where
  "lower_char c =
     (case map_of (zip ''ABCDEFGHIJKLMNOPQRSTUVWXYZ'' ''abcdefghijklmnopqrstuvwxyz'') c of
        Some l \<Rightarrow> l
      | None \<Rightarrow> c)"

definition py_lower :: "string \<Rightarrow> string" where
  "py_lower s = map lower_char s"

definition hex_digit :: "nat \<Rightarrow> char" where
  "hex_digit d = ''0123456789abcdef'' ! (d mod 16)"

text \<open>The last \<open>w\<close> hexadecimal digits of \<open>n\<close>, lower case, padded with zeros.\<close>

fun hex_fixed :: "nat \<Rightarrow> nat \<Rightarrow> string" where
  "hex_fixed 0 n = []"
| "hex_fixed (Suc w) n = hex_fixed w (n div 16) @ [hex_digit (n mod 16)]"

text \<open>Decimal digits of a natural number, and \<^verbatim>\<open>str(n)\<close> for an integer.\<close>

definition dec_digit :: "nat \<Rightarrow> char" where
  "dec_digit d = ''0123456789'' ! (d mod 10)"

fun dec_digits :: "nat \<Rightarrow> nat \<Rightarrow> string" where
  "dec_digits 0 n = []"
| "dec_digits (Suc fuel) n =
     (if n < 10 then [dec_digit n]
      else dec_digits fuel (n div 10) @ [dec_digit (n mod 10)])"

definition str_of_nat :: "nat \<Rightarrow> string" where
  "str_of_nat n = dec_digits (Suc n) n"

definition str_of_int :: "int \<Rightarrow> string" where
  "str_of_int i = (if i < 0 then CHR ''-'' # str_of_nat (nat (- i)) else str_of_nat (nat i))"

section \<open>The document store\<close>

text \<open>
  The store is an external collaborator. Its model keeps, for every database and collection
  name, the documents in insertion order (\<open>None\<close> while the collection does not exist), a
  counter from which the driver draws the identifiers it generates, and a log of the
  \<^verbatim>\<open>insert_many\<close> calls (database, collection, batch length). Driver-level rejections
  other than the ones written out below (invalid names, document size, the network) are
  not modelled.
\<close>

type_synonym document = "(string \<times> pyval) list"

record store =
  colls :: "string \<times> string \<Rightarrow> document list option"
  next_oid :: nat
  bulk_log :: "(string \<times> string \<times> nat) list"

definition docs_of :: "store \<Rightarrow> string \<Rightarrow> string \<Rightarrow> document list" where
  "docs_of st db c = (case colls st (db, c) of None \<Rightarrow> [] | Some ds \<Rightarrow> ds)"

definition has_id :: "pyval \<Rightarrow> document \<Rightarrow> bool" where
  "has_id i d = (map_of d ''_id'' = Some i)"

text \<open>
  A dictionary built by the handler may have keys that are not strings (a header cell of a
  sheet can hold any value). The driver encodes a dictionary as a document only when every
  key is a string, and raises InvalidDocument otherwise.
\<close>

type_synonym pydict = "(pyval \<times> pyval) list"

fun encode_doc :: "pydict \<Rightarrow> document option" where
  "encode_doc [] = Some []"
| "encode_doc ((PStr k, v) # kvs) = map_option ((#) (k, v)) (encode_doc kvs)"
| "encode_doc ((other, v) # kvs) = None"

fun encode_docs :: "pydict list \<Rightarrow> document list option" where
  "encode_docs [] = Some []"
| "encode_docs (d # ds) =
     (case encode_doc d of None \<Rightarrow> None
      | Some e \<Rightarrow> map_option ((#) e) (encode_docs ds))"

text \<open>
  Storing one encoded document: a document without \<^verbatim>\<open>_id\<close> gets a generated ObjectId
  (taken as fresh); a document that brings its own \<^verbatim>\<open>_id\<close> is refused when the
  collection already holds that identifier.
\<close>

definition store_doc :: "store \<Rightarrow> string \<Rightarrow> string \<Rightarrow> document \<Rightarrow> exc + store" where
  "store_doc st db c d =
     (case map_of d ''_id'' of
        None \<Rightarrow>
          Inr (st\<lparr>colls := (colls st)((db, c) \<mapsto>
                     docs_of st db c @ [(''_id'', PObjectId (hex_fixed 24 (next_oid st))) # d]),
                   next_oid := Suc (next_oid st)\<rparr>)
      | Some i \<Rightarrow>
          if list_ex (has_id i) (docs_of st db c) then Inl DuplicateKeyError
          else Inr (st\<lparr>colls := (colls st)((db, c) \<mapsto> docs_of st db c @ [d])\<rparr>))"

text \<open>An ordered bulk write stops at the first refused document and keeps the earlier ones.\<close>

fun store_docs :: "store \<Rightarrow> string \<Rightarrow> string \<Rightarrow> document list \<Rightarrow> exc option \<times> store" where
  "store_docs st db c [] = (None, st)"
| "store_docs st db c (d # ds) =
     (case store_doc st db c d of
        Inl e \<Rightarrow> (Some e, st)
      | Inr st' \<Rightarrow> store_docs st' db c ds)"

definition insert_one :: "store \<Rightarrow> string \<Rightarrow> string \<Rightarrow> pydict \<Rightarrow> exc option \<times> store" where
  "insert_one st db c d =
     (case encode_doc d of
        None \<Rightarrow> (Some InvalidDocument, st)
      | Some e \<Rightarrow> store_docs st db c [e])"

definition insert_many :: "store \<Rightarrow> string \<Rightarrow> string \<Rightarrow> pydict list \<Rightarrow> exc option \<times> store" where
  "insert_many st db c ds =
     (if ds = [] then (Some TypeError, st)
      else case encode_docs ds of
        None \<Rightarrow> (Some InvalidDocument, st)
      | Some es \<Rightarrow>
          store_docs (st\<lparr>bulk_log := bulk_log st @ [(db, c, length ds)]\<rparr>) db c es)"

text \<open>\<^verbatim>\<open>update_one({"_id": i}, {"$set": fields})\<close>: the first document with that
  identifier gets the given fields, the keys already present in place and the new ones at the end.\<close>

definition set_fields :: "document \<Rightarrow> document \<Rightarrow> document" where
  "set_fields upd d = fold (\<lambda>(k, v). AList.update k v) upd d"

fun update_first :: "pyval \<Rightarrow> document \<Rightarrow> document list \<Rightarrow> document list" where
  "update_first i upd [] = []"
| "update_first i upd (d # ds) =
     (if has_id i d then set_fields upd d # ds else d # update_first i upd ds)"

definition update_one_set :: "store \<Rightarrow> string \<Rightarrow> string \<Rightarrow> pyval \<Rightarrow> document \<Rightarrow> store" where
  "update_one_set st db c i upd =
     (case colls st (db, c) of
        None \<Rightarrow> st
      | Some ds \<Rightarrow> st\<lparr>colls := (colls st)((db, c) \<mapsto> update_first i upd ds)\<rparr>)"

definition find_one_id :: "store \<Rightarrow> string \<Rightarrow> string \<Rightarrow> pyval \<Rightarrow> document option" where
  "find_one_id st db c i = List.find (has_id i) (docs_of st db c)"

section \<open>The ingestion pipeline: \<^verbatim>\<open>upload_excel_file\<close>\<close>

text \<open>
  The request of \<^verbatim>\<open>POST /api/fileupload/upload-file\<close>: the uploaded file (its name and
  the rows of cell values of the active sheet, \<open>None\<close> when the workbook cannot be loaded)
  and the form fields. The handler also reads a fresh UUID and the clock.
\<close>

record uploaded_file =
  filename :: string
  sheet_rows :: "pyval list list option"

record upload_request =
  upload :: "uploaded_file option"
  form :: "(string \<times> string) list"

record upload_env =
  uuid4 :: "128 word"
  upload_time :: string
  row_time :: "int \<Rightarrow> string"

definition form_get :: "(string \<times> string) list \<Rightarrow> string \<Rightarrow> string" where
  "form_get f k = (case map_of f k of None \<Rightarrow> [] | Some v \<Rightarrow> v)"

text \<open>\<^verbatim>\<open>str(uuid.uuid4())\<close>: 32 hexadecimal digits in groups of 8, 4, 4, 4 and 12.\<close>

definition uuid_str :: "128 word \<Rightarrow> string" where
  "uuid_str u =
     (let h = hex_fixed 32 (unat u)
      in take 8 h @ ''-'' @ take 4 (drop 8 h) @ ''-'' @ take 4 (drop 12 h) @ ''-'' @
         take 4 (drop 16 h) @ ''-'' @ drop 20 h)"

definition ends_with :: "string \<Rightarrow> string \<Rightarrow> bool" where
  "ends_with suffix s = (length suffix \<le> length s \<and> drop (length s - length suffix) s = suffix)"

subsection \<open>The filename pattern\<close>

text \<open>
  \<^verbatim>\<open>re.match(r"(.+?)(\d{4})_(.+?)_(.+?)_(\d{8})\.xlsx", filename)\<close>. Each lazy group
  takes the shortest non-empty run without a newline after which the rest of the pattern
  matches, so the candidates are tried by increasing length.
\<close>

fun first_match :: "(nat \<Rightarrow> 'a option) \<Rightarrow> nat list \<Rightarrow> 'a option" where
  "first_match f [] = None"
| "first_match f (i # is) = (case f i of Some r \<Rightarrow> Some r | None \<Rightarrow> first_match f is)"

definition dot_run :: "string \<Rightarrow> bool" where
  "dot_run s = (s \<noteq> [] \<and> CHR 0x0A \<notin> set s)"

definition match_date_ext :: "string \<Rightarrow> string option" where
  "match_date_ext s =
     (if 13 \<le> length s \<and> list_all is_digit (take 8 s) \<and> take 5 (drop 8 s) = ''.xlsx''
      then Some (take 8 s) else None)"

definition lazy_field :: "(string \<Rightarrow> 'a option) \<Rightarrow> string \<Rightarrow> (string \<times> 'a) option" where
  "lazy_field k s =
     first_match
       (\<lambda>j. if dot_run (take j s) \<and> take 1 (drop j s) = ''_''
            then map_option (Pair (take j s)) (k (drop (Suc j) s)) else None)
       [1..<length s]"

definition match_year :: "string \<Rightarrow> (string \<times> string \<times> string \<times> string) option" where
  "match_year s =
     (if 5 \<le> length s \<and> list_all is_digit (take 4 s) \<and> take 1 (drop 4 s) = ''_''
      then map_option (Pair (take 4 s)) (lazy_field (lazy_field match_date_ext) (drop 5 s))
      else None)"

definition match_filename ::
  "string \<Rightarrow> (string \<times> string \<times> string \<times> string \<times> string) option" where
  "match_filename s =
     first_match
       (\<lambda>i. if dot_run (take i s) then map_option (Pair (take i s)) (match_year (drop i s))
            else None)
       [1..<length s]"

text \<open>\<^verbatim>\<open>int(year)\<close> on the four digits of the second group.\<close>

definition int_of_digits :: "string \<Rightarrow> int" where
  "int_of_digits ds = int (foldl (\<lambda>n c. 10 * n + digit_val c) 0 ds)"

subsection \<open>Rows, buffers and the row loop\<close>

text \<open>
  The loop variables of the handler: the three counters and the two buffers. The counters
  are called \<^verbatim>\<open>total\<close>, \<^verbatim>\<open>valid\<close> and \<^verbatim>\<open>invalid\<close> in the source.
\<close>

record ingest =
  total_cnt :: int
  valid_cnt :: int
  invalid_cnt :: int
  data_buffer :: "pydict list"
  error_buffer :: "pydict list"

text \<open>
  What stays fixed during the loop. The source computes \<^verbatim>\<open>error_msg = ""\<close> for every
  row (the call of \<^verbatim>\<open>validate_excel_row\<close> is commented out); the loop is modelled for
  any validator, and the handler passes the constant one.
\<close>

record ingest_ctx =
  validate :: "pydict \<Rightarrow> string"
  job_id :: string
  db_name :: string
  coll_name :: string
  headers :: "pyval list"
  clock :: "int \<Rightarrow> string"

definition batch_size :: nat where
  "batch_size = 500"

text \<open>\<^verbatim>\<open>dict(pairs)\<close> and the dictionary displays of the loop body: keys are set in
  order, a repeated key keeps its place and takes the later value.\<close>

definition dict_of :: "(pyval \<times> pyval) list \<Rightarrow> pydict" where
  "dict_of kvs = fold (\<lambda>(k, v). AList.update k v) kvs []"

definition data_doc :: "string \<Rightarrow> int \<Rightarrow> pydict \<Rightarrow> string \<Rightarrow> pydict" where
  "data_doc fid row_index row_data t =
     AList.update (PStr ''createdAt'') (PDateTime t)
       (fold (\<lambda>(k, v). AList.update k v) row_data
          [(PStr ''fileId'', PStr fid), (PStr ''rowNumber'', PInt row_index)])"

definition error_doc :: "string \<Rightarrow> int \<Rightarrow> string \<Rightarrow> string \<Rightarrow> pydict" where
  "error_doc fid row_index error_msg t =
     [(PStr ''fileId'', PStr fid), (PStr ''rowNumber'', PInt row_index),
      (PStr ''error'', PStr error_msg), (PStr ''createdAt'', PDateTime t)]"

text \<open>Lines 148 to 169: count the row and append it to one of the two buffers.\<close>

definition append_row :: "ingest_ctx \<Rightarrow> int \<Rightarrow> pyval list \<Rightarrow> ingest \<Rightarrow> ingest" where
  "append_row ctx row_index row s =
     (let row_data = dict_of (zip (headers ctx) row);
          error_msg = validate ctx row_data
      in if error_msg \<noteq> []
         then s\<lparr>total_cnt := total_cnt s + 1,
                invalid_cnt := invalid_cnt s + 1,
                error_buffer := error_buffer s @
                  [error_doc (job_id ctx) row_index error_msg (clock ctx row_index)]\<rparr>
         else s\<lparr>total_cnt := total_cnt s + 1,
                valid_cnt := valid_cnt s + 1,
                data_buffer := data_buffer s @
                  [data_doc (job_id ctx) row_index row_data (clock ctx row_index)]\<rparr>)"

text \<open>Lines 171 to 173 and 175 to 177: flush a buffer that has reached the batch size.\<close>

definition flush_data :: "ingest_ctx \<Rightarrow> ingest \<Rightarrow> store \<Rightarrow> (exc + ingest) \<times> store" where
  "flush_data ctx s st =
     (if batch_size \<le> length (data_buffer s)
      then (case insert_many st (db_name ctx) (coll_name ctx) (data_buffer s) of
              (Some e, st') \<Rightarrow> (Inl e, st')
            | (None, st') \<Rightarrow> (Inr (s\<lparr>data_buffer := []\<rparr>), st'))
      else (Inr s, st))"

definition flush_errors :: "ingest_ctx \<Rightarrow> ingest \<Rightarrow> store \<Rightarrow> (exc + ingest) \<times> store" where
  "flush_errors ctx s st =
     (if batch_size \<le> length (error_buffer s)
      then (case insert_many st (db_name ctx) ''validation_errors'' (error_buffer s) of
              (Some e, st') \<Rightarrow> (Inl e, st')
            | (None, st') \<Rightarrow> (Inr (s\<lparr>error_buffer := []\<rparr>), st'))
      else (Inr s, st))"

text \<open>
  The loop over \<^verbatim>\<open>enumerate(sheet.iter_rows(min_row=2), start=2)\<close>. It returns the
  loop variables at the end (or the exception that left the loop) and the store, and, as
  its first component, the loop variables at every program point it went through: after
  the append and after each of the two flush tests of every iteration.
\<close>

fun run_rows ::
  "ingest_ctx \<Rightarrow> int \<Rightarrow> pyval list list \<Rightarrow> ingest \<Rightarrow> store \<Rightarrow>
     ingest list \<times> (exc + ingest) \<times> store" where
  "run_rows ctx row_index [] s st = ([], Inr s, st)"
| "run_rows ctx row_index (row # rows) s st =
     (let s1 = append_row ctx row_index row s
      in case flush_data ctx s1 st of
           (Inl e, st1) \<Rightarrow> ([s1], Inl e, st1)
         | (Inr s2, st1) \<Rightarrow>
             (case flush_errors ctx s2 st1 of
                (Inl e, st2) \<Rightarrow> ([s1, s2], Inl e, st2)
              | (Inr s3, st2) \<Rightarrow>
                  (case run_rows ctx (row_index + 1) rows s3 st2 of
                     (tr, r, st3) \<Rightarrow> (s1 # s2 # s3 # tr, r, st3))))"

definition process_rows ::
  "ingest_ctx \<Rightarrow> int \<Rightarrow> pyval list list \<Rightarrow> ingest \<Rightarrow> store \<Rightarrow> (exc + ingest) \<times> store" where
  "process_rows ctx row_index rows s st = snd (run_rows ctx row_index rows s st)"

definition loop_points ::
  "ingest_ctx \<Rightarrow> int \<Rightarrow> pyval list list \<Rightarrow> ingest \<Rightarrow> store \<Rightarrow> ingest list" where
  "loop_points ctx row_index rows s st = fst (run_rows ctx row_index rows s st)"

subsection \<open>The handler\<close>

definition error_body :: "string \<Rightarrow> body" where
  "error_body msg = Json (PDict [(''error'', PStr msg)])"

text \<open>Line 188. The second literal is spelled as the source spells it.\<close>

definition final_status :: "int \<Rightarrow> string" where
  "final_status invalid = (if invalid > 0 then ''failed'' else ''compeleted'')"

text \<open>Lines 179 to 209: the two remainder flushes, the terminal update of the job record
  and the summary.\<close>

definition finish_ingest :: "ingest_ctx \<Rightarrow> string \<Rightarrow> ingest \<Rightarrow> store \<Rightarrow> response \<times> store" where
  "finish_ingest ctx fname s st =
     (case (if data_buffer s \<noteq> []
            then insert_many st (db_name ctx) (coll_name ctx) (data_buffer s)
            else (None, st)) of
        (Some e, st1) \<Rightarrow> ((500, ErrorOf e), st1)
      | (None, st1) \<Rightarrow>
          (case (if error_buffer s \<noteq> []
                 then insert_many st1 (db_name ctx) ''validation_errors'' (error_buffer s)
                 else (None, st1)) of
             (Some e, st2) \<Rightarrow> ((500, ErrorOf e), st2)
           | (None, st2) \<Rightarrow>
               ((200, Json (PDict
                   [(''fileId'', PStr (job_id ctx)),
                    (''database'', PStr (db_name ctx)),
                    (''collection'', PStr (coll_name ctx)),
                    (''filename'', PStr fname),
                    (''status'', PStr (final_status (invalid_cnt s))),
                    (''totalRows'', PInt (total_cnt s)),
                    (''validRows'', PInt (valid_cnt s)),
                    (''invalidRows'', PInt (invalid_cnt s))])),
                update_one_set st2 (db_name ctx) ''file_uploads'' (PStr (job_id ctx))
                  [(''status'', PStr (final_status (invalid_cnt s))),
                   (''totalRows'', PInt (total_cnt s)),
                   (''validRows'', PInt (valid_cnt s)),
                   (''invalidRows'', PInt (invalid_cnt s))])))"

text \<open>Steps 5 and 6 of the handler once the header row is read: the row loop from row
  index 2 with zeroed counters and empty buffers, then the remainder flushes and the
  terminal update. An exception in the loop ends the request with the response 500.\<close>

definition ingest0 :: ingest where
  "ingest0 = \<lparr>total_cnt = 0, valid_cnt = 0, invalid_cnt = 0, data_buffer = [], error_buffer = []\<rparr>"

definition ingest_rows :: "ingest_ctx \<Rightarrow> string \<Rightarrow> pyval list list \<Rightarrow> store \<Rightarrow> response \<times> store" where
  "ingest_rows ctx fname data_rows st =
     (case process_rows ctx 2 data_rows ingest0 st of
        (Inl e, st2) \<Rightarrow> ((500, ErrorOf e), st2)
      | (Inr s, st2) \<Rightarrow> finish_ingest ctx fname s st2)"

text \<open>Lines 111 to 123: the job record as it is created.\<close>

definition job_doc :: "string \<Rightarrow> string \<Rightarrow> string \<Rightarrow> string \<Rightarrow> string \<Rightarrow> int \<Rightarrow> string \<Rightarrow> pydict" where
  "job_doc fid fname creater uploaded_by reviewer year t =
     [(PStr ''_id'', PStr fid),
      (PStr ''filename'', PStr fname),
      (PStr ''createdBy'', PStr creater),
      (PStr ''uploadedBy'', PStr uploaded_by),
      (PStr ''reviewedBy'', PStr reviewer),
      (PStr ''year'', PInt year),
      (PStr ''uploadDate'', PDateTime t),
      (PStr ''status'', PStr ''uploading''),
      (PStr ''totalRows'', PInt 0),
      (PStr ''validRows'', PInt 0),
      (PStr ''invalidRows'', PInt 0)]"

text \<open>
  The whole handler, with the validator as a parameter. Every exception raised inside the
  \<^verbatim>\<open>try\<close> block becomes the response 500; what was written to the store before it
  stays written.
\<close>

definition upload_excel_file_with ::
  "(pydict \<Rightarrow> string) \<Rightarrow> upload_env \<Rightarrow> store \<Rightarrow> upload_request \<Rightarrow> response \<times> store" where
  "upload_excel_file_with v env st req =
     (let db = py_strip (form_get (form req) ''database'');
          coll = py_strip (form_get (form req) ''data_collection'');
          uploaded_by = py_strip (form_get (form req) ''uploadedBy'')
      in case upload req of
           None \<Rightarrow>
             ((400, error_body ''file, database, data_collection, and uploadedBy are required''), st)
         | Some f \<Rightarrow>
             if filename f = [] \<or> db = [] \<or> coll = [] \<or> uploaded_by = []
             then ((400, error_body ''file, database, data_collection, and uploadedBy are required''), st)
             else if \<not> ends_with ''.xlsx'' (filename f)
             then ((400, error_body ''Only .xlsx files are allowed''), st)
             else (case match_filename (filename f) of
               None \<Rightarrow> ((400, error_body ''Invalid filename format''), st)
             | Some (name, year, creater, reviewer, date_str) \<Rightarrow>
                 (let fid = uuid_str (uuid4 env)
                  in case insert_one st db ''file_uploads''
                            (job_doc fid (filename f) creater uploaded_by reviewer
                               (int_of_digits year) (upload_time env)) of
                       (Some e, st1) \<Rightarrow> ((500, ErrorOf e), st1)
                     | (None, st1) \<Rightarrow>
                         (case sheet_rows f of
                            None \<Rightarrow> ((500, ErrorOf InvalidFile), st1)
                          | Some [] \<Rightarrow> ((500, ErrorOf StopIteration), st1)
                          | Some (header_row # data_rows) \<Rightarrow>
                              ingest_rows
                                \<lparr>validate = v, job_id = fid, db_name = db,
                                 coll_name = coll, headers = header_row,
                                 clock = row_time env\<rparr>
                                (filename f) data_rows st1))))"

text \<open>The handler of the source: \<^verbatim>\<open>error_msg = ""\<close> for every row.\<close>

definition upload_excel_file :: "upload_env \<Rightarrow> store \<Rightarrow> upload_request \<Rightarrow> response \<times> store" where
  "upload_excel_file = upload_excel_file_with (\<lambda>row. [])"

subsection \<open>Reading the job record, and a sample upload\<close>

definition job_field :: "store \<Rightarrow> string \<Rightarrow> string \<Rightarrow> string \<Rightarrow> pyval option" where
  "job_field st db fid k =
     (case find_one_id st db ''file_uploads'' (PStr fid) of
        None \<Rightarrow> None
      | Some d \<Rightarrow> map_of d k)"

definition empty_store :: store where
  "empty_store = \<lparr>colls = (\<lambda>k. None), next_oid = 0, bulk_log = []\<rparr>"

definition sample_env :: upload_env where
  "sample_env = \<lparr>uuid4 = 7, upload_time = ''2025-12-16 10:00:00'',
                  row_time = (\<lambda>i. ''2025-12-16 10:00:01'')\<rparr>"

definition sample_upload :: upload_request where
  "sample_upload =
     \<lparr>upload = Some \<lparr>filename = ''AnnualBudget2026_JaneDoe_MarkSmith_20251216.xlsx'',
                      sheet_rows = Some [[PStr ''department'', PStr ''amount''],
                                         [PStr ''IT'', PInt 5],
                                         [PStr ''HR'', PInt 7]]\<rparr>,
      form = [(''database'', ''db''), (''data_collection'', ''rows''),
              (''uploadedBy'', ''JaneDoe'')]\<rparr>"

text \<open>A validator in the style of \<^verbatim>\<open>validate_excel_row\<close>: the department must be
  present and not empty.\<close>

definition department_required :: "pydict \<Rightarrow> string" where
  "department_required row =
     (case map_of row (PStr ''department'') of
        None \<Rightarrow> ''Department is required''
      | Some v \<Rightarrow> if truthy v then [] else ''Department is required'')"

definition sample_upload_bad :: upload_request where
  "sample_upload_bad =
     \<lparr>upload = Some \<lparr>filename = ''AnnualBudget2026_JaneDoe_MarkSmith_20251216.xlsx'',
                      sheet_rows = Some [[PStr ''department'', PStr ''amount''],
                                         [PStr ''IT'', PInt 5],
                                         [PNone, PInt 7],
                                         [PStr ''HR'', PInt 1]]\<rparr>,
      form = [(''database'', ''db''), (''data_collection'', ''rows''),
              (''uploadedBy'', ''JaneDoe'')]\<rparr>"

text \<open>A row is valid when the validator returns the empty message for its dictionary.\<close>

definition row_valid :: "(pydict \<Rightarrow> string) \<Rightarrow> pyval list \<Rightarrow> pyval list \<Rightarrow> bool" where
  "row_valid v hdr row = (v (dict_of (zip hdr row)) = [])"

text \<open>A header cell that is a string other than \<^verbatim>\<open>_id\<close>.\<close>

definition plain_header :: "pyval \<Rightarrow> bool" where
  "plain_header h = (case h of PStr k \<Rightarrow> k \<noteq> ''_id'' | _ \<Rightarrow> False)"

text \<open>The loop context of an upload into database \<^verbatim>\<open>db\<close>, collection \<^verbatim>\<open>rows\<close>, with
  the validator of the source.\<close>

definition sample_ctx :: ingest_ctx where
  "sample_ctx = \<lparr>validate = (\<lambda>row. []), job_id = uuid_str 7, db_name = ''db'',
                  coll_name = ''rows'',
                  headers = [PStr ''department'', PStr ''amount''],
                  clock = (\<lambda>i. ''2025-12-16 10:00:01'')\<rparr>"

section \<open>JSON requests\<close>

text \<open>
  The body of a JSON request is the value that \<^verbatim>\<open>request.get_json()\<close> returns. The
  handlers call \<^verbatim>\<open>data.get\<close> on it, which raises AttributeError unless it is a
  dictionary, and \<^verbatim>\<open>.strip()\<close> on the names they read, which raises AttributeError
  unless the value is a string.
\<close>

definition as_dict :: "pyval \<Rightarrow> exc + (string \<times> pyval) list" where
  "as_dict data = (case data of PDict d \<Rightarrow> Inr d | _ \<Rightarrow> Inl AttributeError)"

definition strip_field :: "(string \<times> pyval) list \<Rightarrow> string \<Rightarrow> exc + string" where
  "strip_field d k =
     (case dict_get d k (PStr []) of
        PStr s \<Rightarrow> Inr (py_strip s)
      | _ \<Rightarrow> Inl AttributeError)"

section \<open>Deleting an uploaded file: \<^verbatim>\<open>delete_uploaded_file\<close>\<close>

text \<open>
  \<^verbatim>\<open>bytes.fromhex\<close>: pairs of hexadecimal digits, with ASCII whitespace allowed between
  the pairs. The result is kept as lower-case hexadecimal text.
\<close>

definition is_hex :: "char \<Rightarrow> bool" where
  "is_hex c = (c \<in> set ''0123456789abcdefABCDEF'')"

definition ascii_space :: "char \<Rightarrow> bool" where
  "ascii_space c = (c \<in> set [CHR '' '', CHR 0x09, CHR 0x0A, CHR 0x0B, CHR 0x0C, CHR 0x0D])"

fun fromhex :: "string \<Rightarrow> string option" where
  "fromhex [] = Some []"
| "fromhex [c] = (if ascii_space c then Some [] else None)"
| "fromhex (c # c' # cs) =
     (if ascii_space c then fromhex (c' # cs)
      else if is_hex c \<and> is_hex c'
           then map_option (\<lambda>r. lower_char c # lower_char c' # r) (fromhex cs)
           else None)"

text \<open>
  \<^verbatim>\<open>ObjectId(oid)\<close> of the bson package, for the values a JSON body can hold: a string
  is accepted when it has 24 characters that \<^verbatim>\<open>bytes.fromhex\<close> accepts, and raises
  InvalidId otherwise; a value that is not a string raises TypeError. (None, for which the
  constructor generates an identifier, never reaches the call in the handler.)
\<close>

definition ObjectId :: "pyval \<Rightarrow> exc + pyval" where
  "ObjectId oid =
     (case oid of
        PStr s \<Rightarrow>
          if length s = 24
          then (case fromhex s of Some h \<Rightarrow> Inr (PObjectId h) | None \<Rightarrow> Inl InvalidId)
          else Inl InvalidId
      | PObjectId h \<Rightarrow> Inr (PObjectId h)
      | _ \<Rightarrow> Inl TypeError)"

text \<open>
  The equality match of a query \<^verbatim>\<open>{k: v}\<close> on one document: the field equals the value,
  or the field is an array that contains it.
\<close>

definition field_eq :: "string \<Rightarrow> pyval \<Rightarrow> document \<Rightarrow> bool" where
  "field_eq k v d =
     (case map_of d k of
        None \<Rightarrow> False
      | Some (PList xs) \<Rightarrow> PList xs = v \<or> v \<in> set xs
      | Some w \<Rightarrow> w = v)"

definition delete_many :: "store \<Rightarrow> string \<Rightarrow> string \<Rightarrow> (document \<Rightarrow> bool) \<Rightarrow> int \<times> store" where
  "delete_many st db c P =
     (case colls st (db, c) of
        None \<Rightarrow> (0, st)
      | Some ds \<Rightarrow>
          (int (length (filter P ds)),
           st\<lparr>colls := (colls st)((db, c) \<mapsto> filter (\<lambda>d. \<not> P d) ds)\<rparr>))"

fun remove_first :: "(document \<Rightarrow> bool) \<Rightarrow> document list \<Rightarrow> document list" where
  "remove_first P [] = []"
| "remove_first P (d # ds) = (if P d then ds else d # remove_first P ds)"

definition delete_one :: "store \<Rightarrow> string \<Rightarrow> string \<Rightarrow> (document \<Rightarrow> bool) \<Rightarrow> store" where
  "delete_one st db c P =
     (case colls st (db, c) of
        None \<Rightarrow> st
      | Some ds \<Rightarrow> st\<lparr>colls := (colls st)((db, c) \<mapsto> remove_first P ds)\<rparr>)"

text \<open>Lines 345 to 378. Every exception becomes the response 500.\<close>

definition delete_uploaded_file :: "store \<Rightarrow> pyval \<Rightarrow> response \<times> store" where
  "delete_uploaded_file st data =
     (case as_dict data of
        Inl e \<Rightarrow> ((500, ErrorOf e), st)
      | Inr d \<Rightarrow>
     (case strip_field d ''database'' of
        Inl e \<Rightarrow> ((500, ErrorOf e), st)
      | Inr database_name \<Rightarrow>
     (case strip_field d ''file_collection'' of
        Inl e \<Rightarrow> ((500, ErrorOf e), st)
      | Inr file_collection_name \<Rightarrow>
     (case strip_field d ''data_collection'' of
        Inl e \<Rightarrow> ((500, ErrorOf e), st)
      | Inr data_collection_name \<Rightarrow>
     (let file_id = dict_get d ''fileId'' PNone
      in if database_name = [] \<or> file_collection_name = [] \<or> data_collection_name = [] \<or>
            \<not> truthy file_id
         then ((400, error_body ''Missing required fields''), st)
         else (case ObjectId file_id of
                 Inl e \<Rightarrow> ((500, ErrorOf e), st)
               | Inr file_object_id \<Rightarrow>
                   (case find_one_id st database_name file_collection_name file_object_id of
                      None \<Rightarrow> ((404, error_body ''File not found''), st)
                    | Some file_doc \<Rightarrow>
                        (case delete_many st database_name data_collection_name
                                (field_eq ''fileId'' file_object_id) of
                           (deleted_count, st1) \<Rightarrow>
                             ((200, Json (PDict
                                 [(''message'', PStr ''File deleted successfully''),
                                  (''rowsDeleted'', PInt deleted_count)])),
                              delete_one st1 database_name file_collection_name
                                (has_id file_object_id))))))))))"

text \<open>The delete request for the job of the sample upload.\<close>

definition sample_delete :: pyval where
  "sample_delete =
     PDict [(''database'', PStr ''db''), (''file_collection'', PStr ''file_uploads''),
            (''data_collection'', PStr ''rows''), (''fileId'', PStr (uuid_str 7))]"

section \<open>Conversions of Python values\<close>

subsection \<open>\<^verbatim>\<open>str()\<close> and \<^verbatim>\<open>repr()\<close>\<close>

text \<open>
  An f-string formats a value with \<^verbatim>\<open>str()\<close>: a string is itself, an integer its decimal
  digits, a list or dictionary the \<^verbatim>\<open>repr()\<close> of its parts. The \<^verbatim>\<open>repr()\<close> of a string
  puts it in single quotes (in double quotes when it contains a single quote and no double
  quote) and escapes the backslash, the quote in use and the characters that are not
  printable. A datetime is kept as its text in both.
\<close>

definition printable :: "char \<Rightarrow> bool" where
  "printable c = (32 \<le> code_of c \<and> code_of c \<noteq> 127 \<and>
                  \<not> (128 \<le> code_of c \<and> code_of c \<le> 160) \<and> code_of c \<noteq> 173)"

definition escape_char :: "char \<Rightarrow> char \<Rightarrow> string" where
  "escape_char q c =
     (if c = CHR 0x5C then [CHR 0x5C, CHR 0x5C]
      else if c = q then [CHR 0x5C, q]
      else if c = CHR 0x0A then [CHR 0x5C, CHR ''n'']
      else if c = CHR 0x0D then [CHR 0x5C, CHR ''r'']
      else if c = CHR 0x09 then [CHR 0x5C, CHR ''t'']
      else if printable c then [c]
      else [CHR 0x5C, CHR ''x''] @ hex_fixed 2 (code_of c))"

definition repr_str :: "string \<Rightarrow> string" where
  "repr_str s =
     (let q = (if CHR 0x27 \<in> set s \<and> CHR 0x22 \<notin> set s then CHR 0x22 else CHR 0x27)
      in [q] @ concat (map (escape_char q) s) @ [q])"

fun py_repr :: "pyval \<Rightarrow> string"
  and repr_list :: "pyval list \<Rightarrow> string"
  and repr_items :: "(string \<times> pyval) list \<Rightarrow> string" where
  "py_repr PNone = ''None''"
| "py_repr (PBool b) = (if b then ''True'' else ''False'')"
| "py_repr (PInt n) = str_of_int n"
| "py_repr (PStr s) = repr_str s"
| "py_repr (PList xs) = ''['' @ repr_list xs @ '']''"
| "py_repr (PDict kvs) = ''{'' @ repr_items kvs @ ''}''"
| "py_repr (PObjectId h) = ''ObjectId('' @ repr_str h @ '')''"
| "py_repr (PDateTime t) = t"
| "repr_list [] = []"
| "repr_list [x] = py_repr x"
| "repr_list (x # y # ys) = py_repr x @ '', '' @ repr_list (y # ys)"
| "repr_items [] = []"
| "repr_items [(k, v)] = repr_str k @ '': '' @ py_repr v"
| "repr_items ((k, v) # kv # kvs) = repr_str k @ '': '' @ py_repr v @ '', '' @ repr_items (kv # kvs)"

definition py_str :: "pyval \<Rightarrow> string" where
  "py_str v = (case v of PStr s \<Rightarrow> s | PObjectId h \<Rightarrow> h | _ \<Rightarrow> py_repr v)"

subsection \<open>\<^verbatim>\<open>int()\<close> and \<^verbatim>\<open>float()\<close>\<close>

text \<open>
  A digit part is a run of decimal digits in which single underscores may separate digits.
\<close>

fun digitpart :: "string \<Rightarrow> bool" where
  "digitpart [] = False"
| "digitpart [c] = is_digit c"
| "digitpart (c # c' # cs) =
     (is_digit c \<and> (if c' = CHR ''_'' then digitpart cs else digitpart (c' # cs)))"

definition split_sign :: "string \<Rightarrow> int \<times> string" where
  "split_sign s =
     (case s of
        [] \<Rightarrow> (1, [])
      | c # cs \<Rightarrow> if c = CHR ''-'' then (- 1, cs) else if c = CHR ''+'' then (1, cs) else (1, s))"

text \<open>\<^verbatim>\<open>int(s)\<close> for a string: \<open>None\<close> stands for ValueError. (The limit that recent
  interpreters put on the number of digits is not modelled.)\<close>

definition int_of_str :: "string \<Rightarrow> int option" where
  "int_of_str s =
     (case split_sign (py_strip s) of
        (sg, ds) \<Rightarrow> if digitpart ds then Some (sg * int_of_digits (filter is_digit ds)) else None)"

text \<open>
  The float that \<^verbatim>\<open>float(s)\<close> creates is kept as the decimal number that the text
  denotes, \<open>m \<times> 10\<^sup>e\<close>, before it is rounded to binary; no property below depends on
  its value.
\<close>

datatype pyfloat = Finite int int | Infinite bool | NaN

definition float_of_str :: "string \<Rightarrow> pyfloat option" where
  "float_of_str s =
     (case split_sign (py_strip s) of
        (sg, t) \<Rightarrow>
          if py_lower t = ''inf'' \<or> py_lower t = ''infinity'' then Some (Infinite (sg < 0))
          else if py_lower t = ''nan'' then Some NaN
          else
            (let mant = takeWhile (\<lambda>c. c \<noteq> CHR ''e'' \<and> c \<noteq> CHR ''E'') t;
                 expo = dropWhile (\<lambda>c. c \<noteq> CHR ''e'' \<and> c \<noteq> CHR ''E'') t;
                 ip = takeWhile (\<lambda>c. c \<noteq> CHR ''.'') mant;
                 fp = drop 1 (dropWhile (\<lambda>c. c \<noteq> CHR ''.'') mant);
                 ex = split_sign (drop 1 expo)
             in if (ip = [] \<or> digitpart ip) \<and> (fp = [] \<or> digitpart fp) \<and>
                   \<not> (ip = [] \<and> fp = []) \<and> (expo = [] \<or> digitpart (snd ex))
                then Some (Finite (sg * int_of_digits (filter is_digit (ip @ fp)))
                             ((if expo = [] then 0 else fst ex * int_of_digits (filter is_digit (snd ex)))
                              - int (length (filter is_digit fp))))
                else None))"

text \<open>\<^verbatim>\<open>int(v)\<close> for the values of a JSON body, as in \<^verbatim>\<open>int(data.get("page", 1))\<close>.\<close>

definition py_int :: "pyval \<Rightarrow> exc + int" where
  "py_int v =
     (case v of
        PInt n \<Rightarrow> Inr n
      | PBool b \<Rightarrow> Inr (if b then 1 else 0)
      | PStr s \<Rightarrow> (case int_of_str s of Some n \<Rightarrow> Inr n | None \<Rightarrow> Inl ValueError)
      | _ \<Rightarrow> Inl TypeError)"

section \<open>Queries against the store\<close>

text \<open>
  A query is the dictionary that the handlers pass to \<^verbatim>\<open>find\<close> and
  \<^verbatim>\<open>count_documents\<close>: for each key either the clause
  \<^verbatim>\<open>{"$regex": pattern, "$options": options}\<close>, or a value to be equal to, or the float
  that the translator parsed.
\<close>

datatype clause = Regex pyval string | Equals pyval | EqualsFloat pyfloat

type_synonym query = "(string \<times> clause) list"

subsection \<open>Regular expressions\<close>

text \<open>
  The store evaluates patterns itself. The model reads the fragment of its pattern language
  that the translator's own text uses: literal characters, the dot, a backslash before a
  character that is not a letter or digit, the postfix operators star, plus and question
  mark on one character, a caret at the start and a dollar at the end. The dot matches any
  character but the newline; with the option \<^verbatim>\<open>i\<close> letters match in either case; a
  pattern without a caret may match anywhere in the value. Any other pattern is outside
  the model (\<open>None\<close>).
\<close>

datatype atom = Lit char | AnyChar

datatype piece = One atom | Star atom | Opt atom

definition meta_char :: "char \<Rightarrow> bool" where
  "meta_char c = (c \<in> set [CHR ''.'', CHR ''*'', CHR ''+'', CHR ''?'', CHR ''^'', CHR ''$'',
                            CHR ''('', CHR '')'', CHR ''['', CHR '']'', CHR ''{'', CHR ''}'',
                            CHR ''|'', CHR 0x5C])"

definition alnum :: "char \<Rightarrow> bool" where
  "alnum c = (is_digit c \<or> lower_char c \<in> set ''abcdefghijklmnopqrstuvwxyz'')"

datatype token = TAtom atom | TStar | TPlus | TOpt | TDollar

definition tok :: "char \<Rightarrow> token option" where
  "tok c =
     (if c = CHR ''.'' then Some (TAtom AnyChar)
      else if c = CHR ''*'' then Some TStar
      else if c = CHR ''+'' then Some TPlus
      else if c = CHR ''?'' then Some TOpt
      else if c = CHR ''$'' then Some TDollar
      else if meta_char c then None
      else Some (TAtom (Lit c)))"

fun tokens :: "string \<Rightarrow> token list option" where
  "tokens [] = Some []"
| "tokens [c] = (if c = CHR 0x5C then None else map_option (\<lambda>t. [t]) (tok c))"
| "tokens (c # e # es) =
     (if c = CHR 0x5C
      then (if alnum e then None else map_option ((#) (TAtom (Lit e))) (tokens es))
      else (case tok c of
              None \<Rightarrow> None
            | Some t \<Rightarrow> map_option ((#) t) (tokens (e # es))))"

fun read_pieces :: "token list \<Rightarrow> (piece list \<times> bool) option" where
  "read_pieces [] = Some ([], False)"
| "read_pieces [TDollar] = Some ([], True)"
| "read_pieces (TAtom a # TStar # ts) = map_option (\<lambda>(ps, e). (Star a # ps, e)) (read_pieces ts)"
| "read_pieces (TAtom a # TPlus # ts) =
     map_option (\<lambda>(ps, e). (One a # Star a # ps, e)) (read_pieces ts)"
| "read_pieces (TAtom a # TOpt # ts) = map_option (\<lambda>(ps, e). (Opt a # ps, e)) (read_pieces ts)"
| "read_pieces (TAtom a # ts) = map_option (\<lambda>(ps, e). (One a # ps, e)) (read_pieces ts)"
| "read_pieces ts = None"

record regex =
  at_start :: bool
  pieces :: "piece list"
  at_end :: bool

definition parse_regex :: "string \<Rightarrow> regex option" where
  "parse_regex s =
     (case s of
        [] \<Rightarrow> Some \<lparr>at_start = False, pieces = [], at_end = False\<rparr>
      | c # cs \<Rightarrow>
          if c = CHR ''^''
          then (case tokens cs of
                  None \<Rightarrow> None
                | Some ts \<Rightarrow>
                    map_option (\<lambda>(ps, e). \<lparr>at_start = True, pieces = ps, at_end = e\<rparr>)
                      (read_pieces ts))
          else (case tokens s of
                  None \<Rightarrow> None
                | Some ts \<Rightarrow>
                    map_option (\<lambda>(ps, e). \<lparr>at_start = False, pieces = ps, at_end = e\<rparr>)
                      (read_pieces ts)))"

definition atom_ok :: "bool \<Rightarrow> atom \<Rightarrow> char \<Rightarrow> bool" where
  "atom_ok ci a c =
     (case a of
        AnyChar \<Rightarrow> c \<noteq> CHR 0x0A
      | Lit l \<Rightarrow> if ci then lower_char l = lower_char c else l = c)"

text \<open>Do the pieces match a prefix of the text (all of it when the pattern ends in a dollar)?\<close>

fun match_here :: "bool \<Rightarrow> bool \<Rightarrow> piece list \<Rightarrow> string \<Rightarrow> bool" where
  "match_here ci e [] s = (\<not> e \<or> s = [])"
| "match_here ci e (One a # ps) [] = False"
| "match_here ci e (One a # ps) (c # cs) = (atom_ok ci a c \<and> match_here ci e ps cs)"
| "match_here ci e (Opt a # ps) [] = match_here ci e ps []"
| "match_here ci e (Opt a # ps) (c # cs) =
     ((atom_ok ci a c \<and> match_here ci e ps cs) \<or> match_here ci e ps (c # cs))"
| "match_here ci e (Star a # ps) [] = match_here ci e ps []"
| "match_here ci e (Star a # ps) (c # cs) =
     ((atom_ok ci a c \<and> match_here ci e (Star a # ps) cs) \<or> match_here ci e ps (c # cs))"

fun match_anywhere :: "bool \<Rightarrow> bool \<Rightarrow> piece list \<Rightarrow> string \<Rightarrow> bool" where
  "match_anywhere ci e ps [] = match_here ci e ps []"
| "match_anywhere ci e ps (c # cs) = (match_here ci e ps (c # cs) \<or> match_anywhere ci e ps cs)"

definition regex_search :: "regex \<Rightarrow> string \<Rightarrow> string \<Rightarrow> bool" where
  "regex_search r options s =
     (if at_start r then match_here (CHR ''i'' \<in> set options) (at_end r) (pieces r) s
      else match_anywhere (CHR ''i'' \<in> set options) (at_end r) (pieces r) s)"

subsection \<open>The server's side of a query\<close>

text \<open>
  How the server reads a clause is its own business, so the handlers are modelled against
  any server: \<open>rejects\<close> is the error with which it refuses a clause (an invalid pattern, a
  pattern that is not a string, an unknown operator), \<open>satisfies\<close> says whether a document
  fulfils the clause for a key, \<open>precedes\<close> is its sort order of two documents on a key.
\<close>

record server =
  rejects :: "clause \<Rightarrow> exc option"
  satisfies :: "string \<Rightarrow> clause \<Rightarrow> document \<Rightarrow> bool"
  precedes :: "string \<Rightarrow> document \<Rightarrow> document \<Rightarrow> bool"

text \<open>
  The reference server used in the examples. A pattern applies to a string field, or to an
  array field one of whose elements is a string that matches. Equality is structural, with
  array containment, and \<^verbatim>\<open>None\<close> also matches a missing field. A float is compared with
  an integer field by its decimal value. Patterns outside the fragment above and operator
  documents (a first key that starts with a dollar) are refused.
\<close>

definition regex_value :: "regex \<Rightarrow> string \<Rightarrow> pyval \<Rightarrow> bool" where
  "regex_value r options v =
     (case v of
        PStr s \<Rightarrow> regex_search r options s
      | PList xs \<Rightarrow> list_ex (\<lambda>x. case x of PStr s \<Rightarrow> regex_search r options s | _ \<Rightarrow> False) xs
      | _ \<Rightarrow> False)"

definition value_eq :: "pyval \<Rightarrow> pyval option \<Rightarrow> bool" where
  "value_eq v field =
     (case field of
        None \<Rightarrow> v = PNone
      | Some (PList xs) \<Rightarrow> PList xs = v \<or> v \<in> set xs
      | Some w \<Rightarrow> w = v)"

definition float_is_int :: "pyfloat \<Rightarrow> int \<Rightarrow> bool" where
  "float_is_int f n =
     (case f of
        Finite m e \<Rightarrow> if 0 \<le> e then m * 10 ^ nat e = n else m = n * 10 ^ nat (- e)
      | _ \<Rightarrow> False)"

definition float_eq :: "pyfloat \<Rightarrow> pyval option \<Rightarrow> bool" where
  "float_eq f field =
     (case field of
        Some (PInt n) \<Rightarrow> float_is_int f n
      | Some (PList xs) \<Rightarrow> list_ex (\<lambda>x. case x of PInt n \<Rightarrow> float_is_int f n | _ \<Rightarrow> False) xs
      | _ \<Rightarrow> False)"

definition reference_rejects :: "clause \<Rightarrow> exc option" where
  "reference_rejects cl =
     (case cl of
        Regex (PStr p) options \<Rightarrow> if parse_regex p = None then Some OperationFailure else None
      | Regex _ options \<Rightarrow> Some OperationFailure
      | Equals (PDict ((k, v) # kvs)) \<Rightarrow> if take 1 k = ''$'' then Some OperationFailure else None
      | _ \<Rightarrow> None)"

definition reference_satisfies :: "string \<Rightarrow> clause \<Rightarrow> document \<Rightarrow> bool" where
  "reference_satisfies k cl d =
     (case cl of
        Regex (PStr p) options \<Rightarrow>
          (case (parse_regex p, map_of d k) of
             (Some r, Some v) \<Rightarrow> regex_value r options v
           | _ \<Rightarrow> False)
      | Regex _ options \<Rightarrow> False
      | Equals v \<Rightarrow> value_eq v (map_of d k)
      | EqualsFloat f \<Rightarrow> float_eq f (map_of d k))"

text \<open>
  The reference order: values of different kinds by kind (null or missing, numbers, strings,
  documents, arrays, identifiers, booleans, dates), integers by value, strings and
  identifiers by character codes, booleans with false first; other values of one kind count
  as equal.
\<close>

fun kind_rank :: "pyval option \<Rightarrow> nat" where
  "kind_rank None = 1"
| "kind_rank (Some PNone) = 1"
| "kind_rank (Some (PInt n)) = 2"
| "kind_rank (Some (PStr s)) = 3"
| "kind_rank (Some (PDict d)) = 4"
| "kind_rank (Some (PList xs)) = 5"
| "kind_rank (Some (PObjectId h)) = 7"
| "kind_rank (Some (PBool b)) = 8"
| "kind_rank (Some (PDateTime t)) = 9"

fun str_le :: "string \<Rightarrow> string \<Rightarrow> bool" where
  "str_le [] t = True"
| "str_le (c # s) [] = False"
| "str_le (c # s) (c' # t) = (code_of c < code_of c' \<or> (c = c' \<and> str_le s t))"

fun same_kind_le :: "pyval option \<Rightarrow> pyval option \<Rightarrow> bool" where
  "same_kind_le (Some (PInt m)) (Some (PInt n)) = (m \<le> n)"
| "same_kind_le (Some (PStr s)) (Some (PStr t)) = str_le s t"
| "same_kind_le (Some (PObjectId s)) (Some (PObjectId t)) = str_le s t"
| "same_kind_le (Some (PDateTime s)) (Some (PDateTime t)) = str_le s t"
| "same_kind_le (Some (PBool a)) (Some (PBool b)) = (a \<longrightarrow> b)"
| "same_kind_le a b = True"

definition reference_precedes :: "string \<Rightarrow> document \<Rightarrow> document \<Rightarrow> bool" where
  "reference_precedes k a b =
     (kind_rank (map_of a k) < kind_rank (map_of b k) \<or>
      (kind_rank (map_of a k) = kind_rank (map_of b k) \<and> same_kind_le (map_of a k) (map_of b k)))"

definition reference_server :: server where
  "reference_server =
     \<lparr>rejects = reference_rejects, satisfies = reference_satisfies, precedes = reference_precedes\<rparr>"

subsection \<open>Cursors of the driver\<close>

text \<open>
  \<^verbatim>\<open>collection.find(query, projection)\<close> only builds a cursor; \<^verbatim>\<open>sort\<close>,
  \<^verbatim>\<open>skip\<close> and \<^verbatim>\<open>limit\<close> set its fields, and \<^verbatim>\<open>list(cursor)\<close> sends it. The
  projection is the list of the keys of the projection dictionary (\<open>None\<close> for no
  projection); a key is any value until the cursor is sent.
\<close>

record cursor =
  cur_db :: string
  cur_coll :: string
  spec :: query
  projection :: "pyval list option"
  ordering :: "(string \<times> int) list"
  skip_n :: int
  limit_n :: int

definition find_cursor :: "string \<Rightarrow> string \<Rightarrow> query \<Rightarrow> pyval list option \<Rightarrow> cursor" where
  "find_cursor db c q proj =
     \<lparr>cur_db = db, cur_coll = c, spec = q, projection = proj, ordering = [],
      skip_n = 0, limit_n = 0\<rparr>"

text \<open>\<^verbatim>\<open>cursor.sort(keys)\<close>: every key has to be a string.\<close>

fun sort_keys :: "(pyval \<times> int) list \<Rightarrow> (string \<times> int) list option" where
  "sort_keys [] = Some []"
| "sort_keys ((PStr k, dir) # ks) = map_option ((#) (k, dir)) (sort_keys ks)"
| "sort_keys ((other, dir) # ks) = None"

definition cursor_sort :: "(pyval \<times> int) list \<Rightarrow> cursor \<Rightarrow> exc + cursor" where
  "cursor_sort keys cur =
     (case sort_keys keys of
        None \<Rightarrow> Inl TypeError
      | Some ks \<Rightarrow> Inr (cur\<lparr>ordering := ks\<rparr>))"

definition cursor_skip :: "int \<Rightarrow> cursor \<Rightarrow> exc + cursor" where
  "cursor_skip n cur = (if n < 0 then Inl ValueError else Inr (cur\<lparr>skip_n := n\<rparr>))"

definition cursor_limit :: "int \<Rightarrow> cursor \<Rightarrow> exc + cursor" where
  "cursor_limit n cur = Inr (cur\<lparr>limit_n := n\<rparr>)"

text \<open>The documents of a collection that fulfil every clause of a query.\<close>

fun refused :: "server \<Rightarrow> query \<Rightarrow> exc option" where
  "refused srv [] = None"
| "refused srv ((k, cl) # q) = (case rejects srv cl of Some e \<Rightarrow> Some e | None \<Rightarrow> refused srv q)"

definition matching :: "server \<Rightarrow> store \<Rightarrow> string \<Rightarrow> string \<Rightarrow> query \<Rightarrow> document list" where
  "matching srv st db c q =
     filter (\<lambda>d. list_all (\<lambda>(k, cl). satisfies srv k cl d) q) (docs_of st db c)"

text \<open>A stable insertion sort by the server's order, reversed for the direction \<open>-1\<close>.\<close>

fun insert_by :: "('a \<Rightarrow> 'a \<Rightarrow> bool) \<Rightarrow> 'a \<Rightarrow> 'a list \<Rightarrow> 'a list" where
  "insert_by le x [] = [x]"
| "insert_by le x (y # ys) = (if le x y then x # y # ys else y # insert_by le x ys)"

definition sort_by :: "('a \<Rightarrow> 'a \<Rightarrow> bool) \<Rightarrow> 'a list \<Rightarrow> 'a list" where
  "sort_by le xs = foldr (insert_by le) xs []"

definition key_order :: "server \<Rightarrow> string \<times> int \<Rightarrow> document \<Rightarrow> document \<Rightarrow> bool" where
  "key_order srv kd a b =
     (if snd kd = 1 then precedes srv (fst kd) a b else precedes srv (fst kd) b a)"

text \<open>Sorting on several keys: the last key first, so that the first key decides.\<close>

definition sort_docs :: "server \<Rightarrow> (string \<times> int) list \<Rightarrow> document list \<Rightarrow> document list" where
  "sort_docs srv ks ds = foldr (\<lambda>kd. sort_by (key_order srv kd)) ks ds"

text \<open>
  A projection that includes keys keeps them, in the order of the document, and the
  identifier. (Paths with dots are not modelled.)
\<close>

definition project :: "pyval list option \<Rightarrow> document \<Rightarrow> document" where
  "project proj d =
     (case proj of
        None \<Rightarrow> d
      | Some ks \<Rightarrow> filter (\<lambda>(k, v). k = ''_id'' \<or> PStr k \<in> set ks) d)"

definition is_str :: "pyval \<Rightarrow> bool" where
  "is_str v = (case v of PStr s \<Rightarrow> True | _ \<Rightarrow> False)"

definition int64_max :: int where
  "int64_max = 9223372036854775807"

text \<open>
  \<^verbatim>\<open>list(cursor)\<close>. The command is encoded first: a projection key that is not a string
  raises InvalidDocument, a skip or limit beyond 64 bits OverflowError. Then the server
  answers: with its error for a clause it refuses, otherwise with the matching documents,
  sorted, without the skipped ones, cut at the limit (a limit of zero is no limit, a negative
  limit counts as its absolute value) and projected.
\<close>

definition cursor_list :: "server \<Rightarrow> store \<Rightarrow> cursor \<Rightarrow> exc + document list" where
  "cursor_list srv st cur =
     (if \<not> (case projection cur of None \<Rightarrow> True | Some ks \<Rightarrow> list_all is_str ks)
      then Inl InvalidDocument
      else if int64_max < skip_n cur \<or> int64_max < \<bar>limit_n cur\<bar> then Inl OverflowError
      else case refused srv (spec cur) of
        Some e \<Rightarrow> Inl e
      | None \<Rightarrow>
          (let found = drop (nat (skip_n cur))
                         (sort_docs srv (ordering cur)
                            (matching srv st (cur_db cur) (cur_coll cur) (spec cur)));
               page = (if limit_n cur = 0 then found else take (nat \<bar>limit_n cur\<bar>) found)
           in Inr (map (project (projection cur)) page)))"

text \<open>\<^verbatim>\<open>collection.count_documents(query)\<close>.\<close>

definition count_documents :: "server \<Rightarrow> store \<Rightarrow> string \<Rightarrow> string \<Rightarrow> query \<Rightarrow> exc + int" where
  "count_documents srv st db c q =
     (case refused srv q of
        Some e \<Rightarrow> Inl e
      | None \<Rightarrow> Inr (int (length (matching srv st db c q))))"

section \<open>The read handlers\<close>

subsection \<open>Exceptions in sequence\<close>

text \<open>
  A handler body is a sequence of steps, each of which may raise; \<open>bind_exc\<close> runs the next
  step on the value of the previous one, and \<open>catch_all\<close> is the
  \<^verbatim>\<open>except Exception as e: return jsonify({"error": str(e)}), 500\<close> around every body.
\<close>

definition bind_exc :: "exc + 'a \<Rightarrow> ('a \<Rightarrow> exc + 'b) \<Rightarrow> exc + 'b" where
  "bind_exc m f = (case m of Inl e \<Rightarrow> Inl e | Inr x \<Rightarrow> f x)"

definition catch_all :: "exc + response \<Rightarrow> response" where
  "catch_all r = (case r of Inl e \<Rightarrow> (500, ErrorOf e) | Inr resp \<Rightarrow> resp)"

subsection \<open>Projections, identifiers and JSON\<close>

text \<open>\<^verbatim>\<open>for field in fields\<close>: a list gives its elements, a string its characters, a
  dictionary its keys; any other value is not iterable.\<close>

definition iterate :: "pyval \<Rightarrow> exc + pyval list" where
  "iterate v =
     (case v of
        PList xs \<Rightarrow> Inr xs
      | PStr s \<Rightarrow> Inr (map (\<lambda>c. PStr [c]) s)
      | PDict kvs \<Rightarrow> Inr (map (\<lambda>kv. PStr (fst kv)) kvs)
      | _ \<Rightarrow> Inl TypeError)"

definition hashable :: "pyval \<Rightarrow> bool" where
  "hashable v = (case v of PList xs \<Rightarrow> False | PDict kvs \<Rightarrow> False | _ \<Rightarrow> True)"

text \<open>The keys of \<^verbatim>\<open>{field: 1 for field in fields}\<close>.\<close>

definition field_keys :: "pyval \<Rightarrow> exc + pyval list" where
  "field_keys v =
     bind_exc (iterate v) (\<lambda>xs. if list_all hashable xs then Inr xs else Inl TypeError)"

text \<open>\<^verbatim>\<open>{field: 1 for field in fields} if fields else None\<close>.\<close>

definition projection_of :: "pyval \<Rightarrow> exc + pyval list option" where
  "projection_of v =
     (if truthy v then bind_exc (field_keys v) (\<lambda>ks. Inr (Some ks)) else Inr None)"

text \<open>\<^verbatim>\<open>item["_id"] = str(item["_id"])\<close> for every item.\<close>

definition str_id :: "document \<Rightarrow> exc + document" where
  "str_id d =
     (case map_of d ''_id'' of
        None \<Rightarrow> Inl KeyError
      | Some i \<Rightarrow> Inr (AList.update ''_id'' (PStr (py_str i)) d))"

fun str_ids :: "document list \<Rightarrow> exc + document list" where
  "str_ids [] = Inr []"
| "str_ids (d # ds) = bind_exc (str_id d) (\<lambda>e. bind_exc (str_ids ds) (\<lambda>es. Inr (e # es)))"

text \<open>\<^verbatim>\<open>jsonify\<close> serialises every value of the model but an ObjectId.\<close>

fun jsonable :: "pyval \<Rightarrow> bool"
  and jsonable_list :: "pyval list \<Rightarrow> bool"
  and jsonable_items :: "(string \<times> pyval) list \<Rightarrow> bool" where
  "jsonable PNone = True"
| "jsonable (PBool b) = True"
| "jsonable (PInt n) = True"
| "jsonable (PStr s) = True"
| "jsonable (PList xs) = jsonable_list xs"
| "jsonable (PDict kvs) = jsonable_items kvs"
| "jsonable (PObjectId h) = False"
| "jsonable (PDateTime t) = True"
| "jsonable_list [] = True"
| "jsonable_list (x # xs) = (jsonable x \<and> jsonable_list xs)"
| "jsonable_items [] = True"
| "jsonable_items ((k, v) # kvs) = (jsonable v \<and> jsonable_items kvs)"

definition jsonify :: "pyval \<Rightarrow> exc + body" where
  "jsonify v = (if jsonable v then Inr (Json v) else Inl TypeError)"

definition docs_value :: "document list \<Rightarrow> pyval" where
  "docs_value ds = PList (map PDict ds)"

subsection \<open>\<^verbatim>\<open>search_for_name\<close>\<close>

text \<open>
  The handler calls two functions by name, \<^verbatim>\<open>get_cached_search_results\<close> and
  \<^verbatim>\<open>cache_search_results\<close>. What a name is bound to is a parameter: the global names of
  the module, \<open>None\<close> for a name that is not bound. Calling an unbound name raises NameError.
\<close>

record globals =
  get_cached_search_results :: "(pyval \<Rightarrow> exc + pyval) option"
  cache_search_results :: "(pyval \<Rightarrow> pyval \<Rightarrow> exc + pyval) option"

definition lookup :: "string \<Rightarrow> 'a option \<Rightarrow> exc + 'a" where
  "lookup name binding = (case binding of None \<Rightarrow> Inl (NameError name) | Some f \<Rightarrow> Inr f)"

text \<open>
  The module \<^verbatim>\<open>search_routes\<close> imports Blueprint, request, jsonify, mongo and swag_from,
  and defines its blueprint and its handlers: neither of the two names is bound.
\<close>

definition search_routes_globals :: globals where
  "search_routes_globals = \<lparr>get_cached_search_results = None, cache_search_results = None\<rparr>"

text \<open>Line 95: every truthy entry of the body but the reserved ones becomes a pattern
  anchored at the start.\<close>

definition prefix_clause :: "pyval \<Rightarrow> clause" where
  "prefix_clause v = Regex (PStr (''^'' @ py_str v)) ''i''"

definition prefix_query :: "(string \<times> pyval) list \<Rightarrow> query" where
  "prefix_query d =
     map (\<lambda>(k, v). (k, prefix_clause v))
       (filter (\<lambda>(k, v). truthy v \<and>
                  k \<notin> set [''database'', ''collection'', ''page'', ''page_records'', ''fields'']) d)"

text \<open>Lines 78 to 119.\<close>

definition search_for_name_in :: "globals \<Rightarrow> server \<Rightarrow> store \<Rightarrow> pyval \<Rightarrow> response" where
  "search_for_name_in g srv st data =
     catch_all
      (bind_exc (as_dict data) (\<lambda>d.
       bind_exc (strip_field d ''database'') (\<lambda>database_name.
       bind_exc (strip_field d ''collection'') (\<lambda>collection_name.
       bind_exc (py_int (dict_get d ''page'' (PInt 1))) (\<lambda>page.
       bind_exc (py_int (dict_get d ''page_records'' (PInt 1000))) (\<lambda>page_records.
       let field_list = dict_get d ''fields'' (PList [])
       in if database_name = [] \<or> collection_name = []
          then Inr (400, error_body ''Database and collection are required'')
          else
       bind_exc (lookup ''get_cached_search_results'' (get_cached_search_results g)) (\<lambda>get_cached.
       bind_exc (get_cached data) (\<lambda>cached_result.
       if truthy cached_result
       then bind_exc (jsonify cached_result) (\<lambda>b. Inr (200, b))
       else
       let query = prefix_query d
       in
       bind_exc (projection_of field_list) (\<lambda>proj.
       let skip_records = (page - 1) * page_records
       in
       bind_exc (cursor_skip skip_records
                   (find_cursor database_name collection_name query proj)) (\<lambda>cur1.
       bind_exc (cursor_limit page_records cur1) (\<lambda>cur2.
       bind_exc (cursor_list srv st cur2) (\<lambda>found.
       bind_exc (str_ids found) (\<lambda>results.
       let response_data =
             PDict [(''count'', PInt (int (length results))), (''data'', docs_value results)]
       in
       bind_exc (lookup ''cache_search_results'' (cache_search_results g)) (\<lambda>cache.
       bind_exc (cache data response_data) (\<lambda>cached.
       bind_exc (jsonify response_data) (\<lambda>b. Inr (200, b)))))))))))))))))"

definition search_for_name :: "server \<Rightarrow> store \<Rightarrow> pyval \<Rightarrow> response" where
  "search_for_name = search_for_name_in search_routes_globals"

subsection \<open>The query translator of \<^verbatim>\<open>get_table_data\<close>\<close>

text \<open>Lines 233 and 244: a pattern that may match anywhere in the value.\<close>

definition contains_clause :: "pyval \<Rightarrow> clause" where
  "contains_clause v = Regex (PStr (''.*'' @ py_str v @ ''.*'')) ''i''"

text \<open>\<^verbatim>\<open>"." in search_value\<close>: a substring test on a string, membership in a list or
  among the keys of a dictionary, TypeError on a value that is not a container.\<close>

definition contains_dot :: "pyval \<Rightarrow> exc + bool" where
  "contains_dot v =
     (case v of
        PStr s \<Rightarrow> Inr (CHR ''.'' \<in> set s)
      | PList xs \<Rightarrow> Inr (PStr ''.'' \<in> set xs)
      | PDict kvs \<Rightarrow> Inr (''.'' \<in> set (map fst kvs))
      | _ \<Rightarrow> Inl TypeError)"

text \<open>\<^verbatim>\<open>float(search_value) if "." in search_value else int(search_value)\<close>.\<close>

definition number_clause :: "pyval \<Rightarrow> exc + clause" where
  "number_clause v =
     bind_exc (contains_dot v) (\<lambda>dotted.
       if dotted
       then (case v of
               PStr s \<Rightarrow> (case float_of_str s of
                            Some f \<Rightarrow> Inr (EqualsFloat f)
                          | None \<Rightarrow> Inl ValueError)
             | _ \<Rightarrow> Inl TypeError)
       else bind_exc (py_int v) (\<lambda>n. Inr (Equals (PInt n))))"

definition reserved :: "string list" where
  "reserved = [''database'', ''collection'', ''page'', ''page_records'', ''fields'', ''sort'']"

text \<open>
  One round of the loop of lines 223 to 246 on an entry of the filters. Only ValueError is
  caught around the number conversion.
\<close>

definition translate :: "string \<Rightarrow> pyval \<Rightarrow> query \<Rightarrow> exc + query" where
  "translate key v query =
     (if key \<in> set reserved then Inr query
      else case v of
        PDict entry \<Rightarrow>
          (let data_type = dict_get entry ''data_type'' (PStr ''text'');
               search_value = dict_get entry ''search_by'' PNone
           in if search_value = PNone then Inr query
              else if data_type = PStr ''text''
                then Inr (AList.update key (contains_clause search_value) query)
              else if data_type = PStr ''number''
                then (case number_clause search_value of
                        Inl ValueError \<Rightarrow> Inr query
                      | Inl e \<Rightarrow> Inl e
                      | Inr cl \<Rightarrow> Inr (AList.update key cl query))
              else if data_type = PStr ''exact''
                then Inr (AList.update key (Equals search_value) query)
              else Inr query)
      | PNone \<Rightarrow> Inr query
      | PStr s \<Rightarrow> Inr (AList.update key (contains_clause (PStr s)) query)
      | other \<Rightarrow> Inr (AList.update key (Equals other) query))"

fun build_query :: "(string \<times> pyval) list \<Rightarrow> query \<Rightarrow> exc + query" where
  "build_query [] query = Inr query"
| "build_query ((key, v) # entries) query = bind_exc (translate key v query) (build_query entries)"

text \<open>Lines 218 to 246: the filters are the entry \<^verbatim>\<open>filters\<close> of the body, or the body
  itself; filters that are not a dictionary give the empty query.\<close>

definition table_query :: "pyval \<Rightarrow> (string \<times> pyval) list \<Rightarrow> exc + query" where
  "table_query data d =
     (case dict_get d ''filters'' data of
        PDict entries \<Rightarrow> build_query entries []
      | _ \<Rightarrow> Inr [])"

subsection \<open>The sort clause of \<^verbatim>\<open>get_table_data\<close>\<close>

text \<open>Line 264: \<^verbatim>\<open>1 if direction.lower() == "asc" else -1\<close>, where \<open>1\<close> is ascending and
  \<open>-1\<close> descending.\<close>

definition sort_direction :: "pyval \<Rightarrow> exc + int" where
  "sort_direction v =
     (case v of
        PStr s \<Rightarrow> Inr (if py_lower s = ''asc'' then 1 else - 1)
      | _ \<Rightarrow> Inl AttributeError)"

text \<open>Lines 262 to 266.\<close>

definition sort_clause :: "pyval \<Rightarrow> exc + (pyval \<times> int) list" where
  "sort_clause sort_data =
     bind_exc (as_dict sort_data) (\<lambda>sd.
       if truthy (dict_get sd ''sort_by'' PNone)
       then bind_exc (sort_direction (dict_get sd ''direction'' (PStr ''asc''))) (\<lambda>direction.
              Inr [(dict_get sd ''sort_by'' PNone, direction)])
       else Inr [])"

subsection \<open>\<^verbatim>\<open>get_table_data\<close>\<close>

text \<open>Lines 201 to 288. A collection is listed by \<^verbatim>\<open>list_collection_names\<close> when the
  store has it.\<close>

definition get_table_data :: "server \<Rightarrow> store \<Rightarrow> pyval \<Rightarrow> response" where
  "get_table_data srv st data =
     catch_all
      (bind_exc (as_dict data) (\<lambda>d.
       bind_exc (strip_field d ''database'') (\<lambda>database_name.
       bind_exc (strip_field d ''collection'') (\<lambda>collection_name.
       if database_name = [] \<or> collection_name = []
       then Inr (400, error_body ''Database and collection are required'')
       else
       bind_exc (py_int (dict_get d ''page'' (PInt 1))) (\<lambda>page.
       bind_exc (py_int (dict_get d ''page_records'' (PInt 10))) (\<lambda>page_records.
       let field_list = dict_get d ''fields'' (PList []);
           sort_data = dict_get d ''sort'' (PDict [])
       in
       bind_exc (table_query data d) (\<lambda>query.
       if colls st (database_name, collection_name) = None
       then Inr (404, error_body (''Collection '' @ collection_name @ '' not found''))
       else
       bind_exc (projection_of field_list) (\<lambda>proj.
       let skip_records = (page - 1) * page_records
       in
       bind_exc (sort_clause sort_data) (\<lambda>clause.
       bind_exc (if clause = []
                 then Inr (find_cursor database_name collection_name query proj)
                 else cursor_sort clause
                        (find_cursor database_name collection_name query proj)) (\<lambda>cur0.
       bind_exc (cursor_skip skip_records cur0) (\<lambda>cur1.
       bind_exc (cursor_limit page_records cur1) (\<lambda>cur2.
       bind_exc (cursor_list srv st cur2) (\<lambda>found.
       bind_exc (str_ids found) (\<lambda>results.
       bind_exc (count_documents srv st database_name collection_name query) (\<lambda>total_count.
       bind_exc (jsonify (PDict [(''count'', PInt total_count), (''data'', docs_value results)]))
         (\<lambda>b. Inr (200, b)))))))))))))))))"

subsection \<open>\<^verbatim>\<open>get_products\<close>\<close>

text \<open>
  \<^verbatim>\<open>get_collection\<close>, lines 9 to 13 of \<^verbatim>\<open>product_routes\<close>: the collection
  \<^verbatim>\<open>products\<close> of the database that the application is configured with, which is a
  parameter (\<open>None\<close> when the configuration names no database).
\<close>

definition get_collection :: "string option \<Rightarrow> exc + string \<times> string" where
  "get_collection configured =
     (case configured of
        None \<Rightarrow> Inl (Exception ''MongoDB is not initialized. Check your configuration.'')
      | Some db \<Rightarrow> Inr (db, ''products''))"

text \<open>Lines 310 to 339. The projection always names the identifier.\<close>

definition get_products :: "string option \<Rightarrow> server \<Rightarrow> store \<Rightarrow> pyval \<Rightarrow> response" where
  "get_products configured srv st data =
     catch_all
      (bind_exc (as_dict data) (\<lambda>d.
       bind_exc (py_int (dict_get d ''page'' (PInt 0))) (\<lambda>page.
       bind_exc (py_int (dict_get d ''page_records'' (PInt 100))) (\<lambda>page_records.
       let field_list = dict_get d ''fields'' (PList [])
       in
       bind_exc (get_collection configured) (\<lambda>collection.
       let skip_records = page * page_records
       in
       bind_exc (if truthy field_list
                 then bind_exc (field_keys field_list) (\<lambda>ks. Inr (Some (PStr ''_id'' # ks)))
                 else Inr None) (\<lambda>proj.
       bind_exc (cursor_skip skip_records
                   (find_cursor (fst collection) (snd collection) [] proj)) (\<lambda>cur1.
       bind_exc (cursor_limit page_records cur1) (\<lambda>cur2.
       bind_exc (cursor_list srv st cur2) (\<lambda>found.
       bind_exc (str_ids found) (\<lambda>products.
       bind_exc (jsonify (PDict [(''count'', PInt (int (length products))),
                                 (''products'', docs_value products)]))
         (\<lambda>b. Inr (200, b))))))))))))"

subsection \<open>\<^verbatim>\<open>get_uploaded_files\<close>\<close>

text \<open>Lines 269 to 300 of \<^verbatim>\<open>fileupload_routes\<close>. The value of an entry is the pattern
  itself.\<close>

definition files_query :: "(string \<times> pyval) list \<Rightarrow> query" where
  "files_query d =
     map (\<lambda>(k, v). (k, Regex v ''i''))
       (filter (\<lambda>(k, v). truthy v \<and>
                  k \<notin> set [''database'', ''collection'', ''page'', ''page_records'']) d)"

definition get_uploaded_files :: "server \<Rightarrow> store \<Rightarrow> pyval \<Rightarrow> response" where
  "get_uploaded_files srv st data =
     catch_all
      (bind_exc (as_dict data) (\<lambda>d.
       bind_exc (strip_field d ''database'') (\<lambda>database_name.
       bind_exc (strip_field d ''collection'') (\<lambda>collection_name.
       bind_exc (py_int (dict_get d ''page'' (PInt 1))) (\<lambda>page.
       bind_exc (py_int (dict_get d ''page_records'' (PInt 20))) (\<lambda>page_records.
       if database_name = [] \<or> collection_name = []
       then Inr (400, error_body ''Database and collection are required'')
       else
       let query = files_query d;
           skip_records = (page - 1) * page_records
       in
       bind_exc (cursor_sort [(PStr ''createdAt'', - 1)]
                   (find_cursor database_name collection_name query None)) (\<lambda>cur0.
       bind_exc (cursor_skip skip_records cur0) (\<lambda>cur1.
       bind_exc (cursor_limit page_records cur1) (\<lambda>cur2.
       bind_exc (cursor_list srv st cur2) (\<lambda>files.
       bind_exc (count_documents srv st database_name collection_name query) (\<lambda>total.
       bind_exc (str_ids files) (\<lambda>results.
       bind_exc (jsonify (PDict [(''count'', PInt total), (''page'', PInt page),
                                 (''page_records'', PInt page_records),
                                 (''data'', docs_value results)]))
         (\<lambda>b. Inr (200, b))))))))))))))"

subsection \<open>Examples\<close>

text \<open>A shop with three products, in insertion order.\<close>

definition sample_shop :: store where
  "sample_shop =
     \<lparr>colls = [(''shop'', ''products'') \<mapsto>
         [[(''_id'', PObjectId ''000000000000000000000001''),
           (''productName'', PStr ''My Test Product''), (''price'', PInt 5)],
          [(''_id'', PObjectId ''000000000000000000000002''),
           (''productName'', PStr ''Test Bench''), (''price'', PInt 7)],
          [(''_id'', PObjectId ''000000000000000000000003''),
           (''productName'', PStr ''Other''), (''price'', PInt 3)]]],
      next_oid = 4, bulk_log = []\<rparr>"

text \<open>The entries \<^verbatim>\<open>count\<close> and \<^verbatim>\<open>data\<close> (or \<^verbatim>\<open>products\<close>) of a response body.\<close>

definition count_of :: "response \<Rightarrow> pyval option" where
  "count_of r = (case snd r of Json (PDict kvs) \<Rightarrow> map_of kvs ''count'' | _ \<Rightarrow> None)"

definition items_of :: "response \<Rightarrow> pyval list" where
  "items_of r =
     (case snd r of
        Json (PDict kvs) \<Rightarrow>
          (case map_of kvs ''data'' of
             Some (PList xs) \<Rightarrow> xs
           | _ \<Rightarrow> (case map_of kvs ''products'' of Some (PList xs) \<Rightarrow> xs | _ \<Rightarrow> []))
      | _ \<Rightarrow> [])"

text \<open>The value of one field in each item of a response.\<close>

definition column :: "string \<Rightarrow> response \<Rightarrow> pyval list" where
  "column k r = map (\<lambda>x. case x of PDict d \<Rightarrow> dict_get d k PNone | _ \<Rightarrow> PNone) (items_of r)"

text \<open>A request to \<^verbatim>\<open>/api/tabledata\<close> for the products of the shop.\<close>

definition shop_request :: "(string \<times> pyval) list \<Rightarrow> pyval" where
  "shop_request extra =
     PDict ([(''database'', PStr ''shop''), (''collection'', PStr ''products'')] @ extra)"

text \<open>Global names under which both cache functions are bound, to a cache that never holds
  anything.\<close>

definition empty_cache :: globals where
  "empty_cache =
     \<lparr>get_cached_search_results = Some (\<lambda>data. Inr PNone),
      cache_search_results = Some (\<lambda>data response_data. Inr PNone)\<rparr>"

section \<open>Properties of the ingestion pipeline\<close>

subsection \<open>Counters of the row loop\<close>

lemma append_row_counters:
  "total_cnt (append_row ctx i r s) = total_cnt s + 1"
  "valid_cnt (append_row ctx i r s) =
     valid_cnt s + (if row_valid (validate ctx) (headers ctx) r then 1 else 0)"
  "invalid_cnt (append_row ctx i r s) =
     invalid_cnt s + (if row_valid (validate ctx) (headers ctx) r then 0 else 1)"
  by (simp_all add: append_row_def row_valid_def Let_def)

lemma flush_data_counters:
  assumes "flush_data ctx s st = (Inr s', st')"
  shows "total_cnt s' = total_cnt s" "valid_cnt s' = valid_cnt s" "invalid_cnt s' = invalid_cnt s"
    "error_buffer s' = error_buffer s"
  using assms by (auto simp: flush_data_def split: if_splits prod.splits option.splits)

lemma flush_errors_counters:
  assumes "flush_errors ctx s st = (Inr s', st')"
  shows "total_cnt s' = total_cnt s" "valid_cnt s' = valid_cnt s" "invalid_cnt s' = invalid_cnt s"
    "data_buffer s' = data_buffer s"
  using assms by (auto simp: flush_errors_def split: if_splits prod.splits option.splits)

lemma run_rows_counters:
  assumes "run_rows ctx i rows s st = (tr, Inr s', st')"
  shows "total_cnt s' = total_cnt s + int (length rows) \<and>
         valid_cnt s' = valid_cnt s + int (length (filter (row_valid (validate ctx) (headers ctx)) rows)) \<and>
         invalid_cnt s' = invalid_cnt s +
           int (length (filter (\<lambda>r. \<not> row_valid (validate ctx) (headers ctx) r) rows))"
  using assms
proof (induction rows arbitrary: i s st tr)
  case Nil
  then show ?case by simp
next
  case (Cons r rows)
  let ?s1 = "append_row ctx i r s"
  from Cons.prems obtain s2 st1 where f1: "flush_data ctx ?s1 st = (Inr s2, st1)"
    by (auto simp: Let_def split: prod.splits sum.splits)
  from Cons.prems f1 obtain s3 st2 where f2: "flush_errors ctx s2 st1 = (Inr s3, st2)"
    by (auto simp: Let_def split: prod.splits sum.splits)
  from Cons.prems f1 f2 obtain tr' where rec: "run_rows ctx (i + 1) rows s3 st2 = (tr', Inr s', st')"
    by (auto simp: Let_def split: prod.splits sum.splits)
  have "total_cnt s3 = total_cnt s + 1"
    using flush_data_counters(1)[OF f1] flush_errors_counters(1)[OF f2] append_row_counters(1)
    by simp
  moreover have "valid_cnt s3 = valid_cnt s + (if row_valid (validate ctx) (headers ctx) r then 1 else 0)"
    using flush_data_counters(2)[OF f1] flush_errors_counters(2)[OF f2] append_row_counters(2)
    by simp
  moreover have "invalid_cnt s3 = invalid_cnt s + (if row_valid (validate ctx) (headers ctx) r then 0 else 1)"
    using flush_data_counters(3)[OF f1] flush_errors_counters(3)[OF f2] append_row_counters(3)
    by simp
  ultimately show ?case using Cons.IH[OF rec] by simp
qed

subsection \<open>The store only grows during the loop\<close>

lemma store_doc_grows:
  assumes "store_doc st db c d = Inr st'"
  shows "\<exists>ys. docs_of st' db' c' = docs_of st db' c' @ ys"
  using assms
  by (auto simp: store_doc_def docs_of_def split: option.splits if_splits)

lemma store_docs_grows:
  assumes "store_docs st db c ds = (r, st')"
  shows "\<exists>ys. docs_of st' db' c' = docs_of st db' c' @ ys"
  using assms
proof (induction ds arbitrary: st)
  case Nil
  then show ?case by simp
next
  case (Cons d ds)
  show ?case
  proof (cases "store_doc st db c d")
    case (Inl e)
    with Cons.prems show ?thesis by simp
  next
    case (Inr st1)
    with Cons.prems have "store_docs st1 db c ds = (r, st')" by simp
    from Cons.IH[OF this] obtain ys where "docs_of st' db' c' = docs_of st1 db' c' @ ys" by blast
    moreover from store_doc_grows[OF Inr] obtain zs where "docs_of st1 db' c' = docs_of st db' c' @ zs"
      by blast
    ultimately show ?thesis by simp
  qed
qed

lemma docs_of_bulk_log [simp]: "docs_of (st\<lparr>bulk_log := l\<rparr>) db c = docs_of st db c"
  by (simp add: docs_of_def)

lemma insert_many_grows:
  assumes "insert_many st db c ds = (r, st')"
  shows "\<exists>ys. docs_of st' db' c' = docs_of st db' c' @ ys"
proof (cases "ds = [] \<or> encode_docs ds = None")
  case True
  with assms show ?thesis by (auto simp: insert_many_def split: if_splits)
next
  case False
  then obtain es where "encode_docs ds = Some es" by auto
  with False assms
  have "store_docs (st\<lparr>bulk_log := bulk_log st @ [(db, c, length ds)]\<rparr>) db c es = (r, st')"
    by (simp add: insert_many_def)
  from store_docs_grows[OF this, of db' c'] show ?thesis by simp
qed

lemma flush_data_grows:
  assumes "flush_data ctx s st = (r, st')"
  shows "\<exists>ys. docs_of st' db' c' = docs_of st db' c' @ ys"
proof (cases "batch_size \<le> length (data_buffer s)")
  case True
  obtain r0 st0 where
    im: "insert_many st (db_name ctx) (coll_name ctx) (data_buffer s) = (r0, st0)"
    by (cases "insert_many st (db_name ctx) (coll_name ctx) (data_buffer s)")
  with True assms have "st' = st0" by (auto simp: flush_data_def split: option.splits)
  with insert_many_grows[OF im] show ?thesis by simp
next
  case False
  with assms show ?thesis by (simp add: flush_data_def)
qed

lemma flush_errors_grows:
  assumes "flush_errors ctx s st = (r, st')"
  shows "\<exists>ys. docs_of st' db' c' = docs_of st db' c' @ ys"
proof (cases "batch_size \<le> length (error_buffer s)")
  case True
  obtain r0 st0 where
    im: "insert_many st (db_name ctx) ''validation_errors'' (error_buffer s) = (r0, st0)"
    by (cases "insert_many st (db_name ctx) ''validation_errors'' (error_buffer s)")
  with True assms have "st' = st0" by (auto simp: flush_errors_def split: option.splits)
  with insert_many_grows[OF im] show ?thesis by simp
next
  case False
  with assms show ?thesis by (simp add: flush_errors_def)
qed

lemma run_rows_grows:
  assumes "run_rows ctx i rows s st = (tr, r, st')"
  shows "\<exists>ys. docs_of st' db' c' = docs_of st db' c' @ ys"
  using assms
proof (induction rows arbitrary: i s st tr)
  case Nil
  then show ?case by simp
next
  case (Cons row rows)
  let ?s1 = "append_row ctx i row s"
  obtain r1 st1 where f1: "flush_data ctx ?s1 st = (r1, st1)" by (cases "flush_data ctx ?s1 st")
  from flush_data_grows[OF f1] obtain ys1 where g1: "docs_of st1 db' c' = docs_of st db' c' @ ys1"
    by blast
  show ?case
  proof (cases r1)
    case (Inl e)
    with Cons.prems f1 have "st' = st1" by (simp add: Let_def)
    with g1 show ?thesis by simp
  next
    case (Inr s2)
    obtain r2 st2 where f2: "flush_errors ctx s2 st1 = (r2, st2)" by (cases "flush_errors ctx s2 st1")
    from flush_errors_grows[OF f2] obtain ys2 where g2: "docs_of st2 db' c' = docs_of st1 db' c' @ ys2"
      by blast
    show ?thesis
    proof (cases r2)
      case (Inl e)
      with Cons.prems f1 f2 Inr have "st' = st2" by (simp add: Let_def)
      with g1 g2 show ?thesis by simp
    next
      case r2: (Inr s3)
      obtain tr3 r3 st3 where rec: "run_rows ctx (i + 1) rows s3 st2 = (tr3, r3, st3)"
        by (cases "run_rows ctx (i + 1) rows s3 st2") auto
      with Cons.prems f1 f2 Inr r2 have "st' = st3" "r = r3" by (simp_all add: Let_def)
      with Cons.IH[of "i + 1" s3 st2 tr3] rec g1 g2 show ?thesis by auto
    qed
  qed
qed

subsection \<open>The job record\<close>

lemma find_append_first:
  "List.find P xs = Some d \<Longrightarrow> List.find P (xs @ ys) = Some d"
  by (induction xs) (auto split: if_splits)

lemma find_one_id_grows:
  assumes "find_one_id st db c i = Some d" and "docs_of st' db c = docs_of st db c @ ys"
  shows "find_one_id st' db c i = Some d"
  using assms by (simp add: find_one_id_def find_append_first)

lemma find_snoc_new:
  "\<not> list_ex P xs \<Longrightarrow> P d \<Longrightarrow> List.find P (xs @ [d]) = Some d"
  by (induction xs) auto

lemma encode_job_doc:
  "encode_doc (job_doc fid fname creater uploaded_by reviewer year t) =
     Some [(''_id'', PStr fid), (''filename'', PStr fname), (''createdBy'', PStr creater),
           (''uploadedBy'', PStr uploaded_by), (''reviewedBy'', PStr reviewer),
           (''year'', PInt year), (''uploadDate'', PDateTime t),
           (''status'', PStr ''uploading''), (''totalRows'', PInt 0),
           (''validRows'', PInt 0), (''invalidRows'', PInt 0)]"
  by (simp add: job_doc_def)

lemma insert_one_job_found:
  assumes "insert_one st db ''file_uploads'' (job_doc fid fname cr ub rv yr t) = (None, st1)"
  shows "\<exists>job. find_one_id st1 db ''file_uploads'' (PStr fid) = Some job \<and>
               map_of job ''_id'' = Some (PStr fid)"
proof -
  let ?e = "[(''_id'', PStr fid), (''filename'', PStr fname), (''createdBy'', PStr cr),
           (''uploadedBy'', PStr ub), (''reviewedBy'', PStr rv),
           (''year'', PInt yr), (''uploadDate'', PDateTime t),
           (''status'', PStr ''uploading''), (''totalRows'', PInt 0),
           (''validRows'', PInt 0), (''invalidRows'', PInt 0)]"
  from assms have sd: "store_doc st db ''file_uploads'' ?e = Inr st1"
    by (simp add: insert_one_def encode_job_doc split: sum.splits)
  have id: "map_of ?e ''_id'' = Some (PStr fid)" by simp
  from sd id have fresh: "\<not> list_ex (has_id (PStr fid)) (docs_of st db ''file_uploads'')"
    and docs: "docs_of st1 db ''file_uploads'' = docs_of st db ''file_uploads'' @ [?e]"
    by (auto simp: store_doc_def docs_of_def split: if_splits)
  have "has_id (PStr fid) ?e" by (simp add: has_id_def)
  with fresh docs have "find_one_id st1 db ''file_uploads'' (PStr fid) = Some ?e"
    by (simp add: find_one_id_def find_snoc_new)
  with id show ?thesis by blast
qed

lemma find_update_first:
  assumes "List.find (has_id i) ds = Some d" and "has_id i (set_fields upd d)"
  shows "List.find (has_id i) (update_first i upd ds) = Some (set_fields upd d)"
  using assms by (induction ds) (auto split: if_splits)

lemma map_of_set_fields4:
  "map_of (set_fields [(a, x), (b, y), (c, z), (e, w)] d) =
     (map_of d)(a \<mapsto> x, b \<mapsto> y, c \<mapsto> z, e \<mapsto> w)"
  by (rule ext) (simp add: set_fields_def update_conv)

lemma update_one_set_found:
  assumes "find_one_id st db c i = Some d" and "''_id'' \<notin> {a, b, k, e}"
  shows "\<exists>d'. find_one_id (update_one_set st db c i [(a, x), (b, y), (k, z), (e, w)]) db c i = Some d' \<and>
              map_of d' = (map_of d)(a \<mapsto> x, b \<mapsto> y, k \<mapsto> z, e \<mapsto> w)"
proof -
  let ?upd = "[(a, x), (b, y), (k, z), (e, w)]"
  from assms(1) have f: "List.find (has_id i) (docs_of st db c) = Some d"
    by (simp add: find_one_id_def)
  then have hd: "has_id i d" by (auto simp: find_Some_iff)
  from f obtain ds where cs: "colls st (db, c) = Some ds" and ds: "docs_of st db c = ds"
    by (cases "colls st (db, c)") (auto simp: docs_of_def)
  from hd assms(2) have "has_id i (set_fields ?upd d)"
    by (auto simp: has_id_def map_of_set_fields4)
  with f ds have "List.find (has_id i) (update_first i ?upd ds) = Some (set_fields ?upd d)"
    by (simp add: find_update_first)
  with cs have "find_one_id (update_one_set st db c i ?upd) db c i = Some (set_fields ?upd d)"
    by (simp add: find_one_id_def update_one_set_def docs_of_def)
  then show ?thesis by (auto simp: map_of_set_fields4)
qed

lemma finish_ingest_job:
  assumes fin: "finish_ingest ctx fname s st = ((200, b), st')"
    and job: "find_one_id st (db_name ctx) ''file_uploads'' (PStr (job_id ctx)) = Some d"
  shows "\<exists>d'. find_one_id st' (db_name ctx) ''file_uploads'' (PStr (job_id ctx)) = Some d' \<and>
           map_of d' = (map_of d)(''status'' \<mapsto> PStr (final_status (invalid_cnt s)),
                                  ''totalRows'' \<mapsto> PInt (total_cnt s),
                                  ''validRows'' \<mapsto> PInt (valid_cnt s),
                                  ''invalidRows'' \<mapsto> PInt (invalid_cnt s))"
proof -
  let ?db = "db_name ctx"
  let ?i = "PStr (job_id ctx)"
  let ?upd = "[(''status'', PStr (final_status (invalid_cnt s))),
               (''totalRows'', PInt (total_cnt s)),
               (''validRows'', PInt (valid_cnt s)),
               (''invalidRows'', PInt (invalid_cnt s))]"
  obtain r1 st1 where
    a: "(if data_buffer s \<noteq> []
         then insert_many st ?db (coll_name ctx) (data_buffer s)
         else (None, st)) = (r1, st1)"
    by (cases "if data_buffer s \<noteq> []
         then insert_many st ?db (coll_name ctx) (data_buffer s)
         else (None, st)")
  obtain r2 st2 where
    b: "(if error_buffer s \<noteq> []
         then insert_many st1 ?db ''validation_errors'' (error_buffer s)
         else (None, st1)) = (r2, st2)"
    by (cases "if error_buffer s \<noteq> []
         then insert_many st1 ?db ''validation_errors'' (error_buffer s)
         else (None, st1)")
  from fin a have r1: "r1 = None"
    by (cases r1) (simp_all add: finish_ingest_def)
  from fin a b r1 have r2: "r2 = None"
    by (cases r2) (simp_all add: finish_ingest_def)
  from fin a b r1 r2 have st': "st' = update_one_set st2 ?db ''file_uploads'' ?i ?upd"
    by (simp add: finish_ingest_def)
  from a obtain ys1 where "docs_of st1 ?db ''file_uploads'' = docs_of st ?db ''file_uploads'' @ ys1"
    using insert_many_grows[of st ?db "coll_name ctx" "data_buffer s" r1 st1 ?db "''file_uploads''"]
    by (auto split: if_splits)
  with job have j1: "find_one_id st1 ?db ''file_uploads'' ?i = Some d"
    by (rule find_one_id_grows)
  from b obtain ys2 where "docs_of st2 ?db ''file_uploads'' = docs_of st1 ?db ''file_uploads'' @ ys2"
    using insert_many_grows[of st1 ?db "''validation_errors''" "error_buffer s" r2 st2 ?db "''file_uploads''"]
    by (auto split: if_splits)
  with j1 have j2: "find_one_id st2 ?db ''file_uploads'' ?i = Some d"
    by (rule find_one_id_grows)
  have "''_id'' \<notin> {''status'', ''totalRows'', ''validRows'', ''invalidRows''}" by simp
  from update_one_set_found[OF j2 this] st' show ?thesis by simp
qed

lemma upload_200_job:
  assumes up: "upload_excel_file_with v env st req = ((200, b), st')"
  shows "\<exists>f hdr rows d'. upload req = Some f \<and> sheet_rows f = Some (hdr # rows) \<and>
      find_one_id st' (py_strip (form_get (form req) ''database'')) ''file_uploads''
        (PStr (uuid_str (uuid4 env))) = Some d' \<and>
      map_of d' ''status'' = Some (PStr (final_status
          (int (length (filter (\<lambda>r. \<not> row_valid v hdr r) rows))))) \<and>
      map_of d' ''totalRows'' = Some (PInt (int (length rows))) \<and>
      map_of d' ''validRows'' = Some (PInt (int (length (filter (row_valid v hdr) rows)))) \<and>
      map_of d' ''invalidRows'' =
        Some (PInt (int (length (filter (\<lambda>r. \<not> row_valid v hdr r) rows))))"
proof -
  let ?db = "py_strip (form_get (form req) ''database'')"
  let ?coll = "py_strip (form_get (form req) ''data_collection'')"
  let ?ub = "py_strip (form_get (form req) ''uploadedBy'')"
  let ?fid = "uuid_str (uuid4 env)"
  from up obtain f where f: "upload req = Some f"
    by (cases "upload req") (simp_all add: upload_excel_file_with_def Let_def)
  from up f have ok1: "\<not> (filename f = [] \<or> ?db = [] \<or> ?coll = [] \<or> ?ub = [])"
    and ok2: "ends_with ''.xlsx'' (filename f)"
    by (auto simp: upload_excel_file_with_def Let_def split: if_splits)
  from up f ok1 ok2 obtain name year creater reviewer date_str where
    m: "match_filename (filename f) = Some (name, year, creater, reviewer, date_str)"
    by (cases "match_filename (filename f)") (auto simp: upload_excel_file_with_def Let_def)
  let ?job = "job_doc ?fid (filename f) creater ?ub reviewer (int_of_digits year) (upload_time env)"
  obtain r1 st1 where ins: "insert_one st ?db ''file_uploads'' ?job = (r1, st1)"
    by (cases "insert_one st ?db ''file_uploads'' ?job")
  from up f ok1 ok2 m ins have r1: "r1 = None"
    by (cases r1) (simp_all add: upload_excel_file_with_def Let_def)
  from up f ok1 ok2 m ins r1 obtain hdr rows where sh: "sheet_rows f = Some (hdr # rows)"
    by (cases "sheet_rows f"; cases "the (sheet_rows f)")
       (simp_all add: upload_excel_file_with_def Let_def)
  let ?ctx = "\<lparr>validate = v, job_id = ?fid, db_name = ?db,
               coll_name = ?coll, headers = hdr, clock = row_time env\<rparr>"
  obtain tr r2 st2 where run: "run_rows ?ctx 2 rows ingest0 st1 = (tr, r2, st2)"
    by (cases "run_rows ?ctx 2 rows ingest0 st1") auto
  from up f ok1 ok2 m ins r1 sh run obtain s where r2: "r2 = Inr s"
    by (cases r2) (simp_all add: upload_excel_file_with_def Let_def ingest_rows_def process_rows_def)
  from up f ok1 ok2 m ins r1 sh run r2
  have fin: "finish_ingest ?ctx (filename f) s st2 = ((200, b), st')"
    by (simp add: upload_excel_file_with_def Let_def ingest_rows_def process_rows_def)
  from insert_one_job_found ins r1 obtain job where
    j1: "find_one_id st1 ?db ''file_uploads'' (PStr ?fid) = Some job" by blast
  from run_rows_grows[OF run] obtain ys where
    "docs_of st2 ?db ''file_uploads'' = docs_of st1 ?db ''file_uploads'' @ ys" by blast
  with j1 have j2: "find_one_id st2 ?db ''file_uploads'' (PStr ?fid) = Some job"
    by (rule find_one_id_grows)
  from finish_ingest_job[OF fin] j2 obtain d' where
    d': "find_one_id st' ?db ''file_uploads'' (PStr ?fid) = Some d'"
    and md: "map_of d' = (map_of job)(''status'' \<mapsto> PStr (final_status (invalid_cnt s)),
                                  ''totalRows'' \<mapsto> PInt (total_cnt s),
                                  ''validRows'' \<mapsto> PInt (valid_cnt s),
                                  ''invalidRows'' \<mapsto> PInt (invalid_cnt s))"
    by auto
  from run r2 have cnt: "total_cnt s = int (length rows)"
    "valid_cnt s = int (length (filter (row_valid v hdr) rows))"
    "invalid_cnt s = int (length (filter (\<lambda>r. \<not> row_valid v hdr r) rows))"
    using run_rows_counters[of ?ctx 2 rows ingest0 st1 tr s st2]
    by (simp_all add: ingest0_def)
  show ?thesis
    using f sh d' by (simp add: md cnt)
qed

subsection \<open>Evaluating the sample uploads\<close>

lemma hex_fixed_numeral:
  "hex_fixed (numeral k) n = hex_fixed (pred_numeral k) (n div 16) @ [hex_digit (n mod 16)]"
proof -
  have "hex_fixed (Suc (pred_numeral k)) n =
          hex_fixed (pred_numeral k) (n div 16) @ [hex_digit (n mod 16)]"
    by (rule hex_fixed.simps)
  then show ?thesis by (simp only: numeral_eq_Suc [symmetric])
qed

lemma sample_filename_match:
  "match_filename ''AnnualBudget2026_JaneDoe_MarkSmith_20251216.xlsx'' =
     Some (''AnnualBudget'', ''2026'', ''JaneDoe'', ''MarkSmith'', ''20251216'')"
  by code_simp

lemma sample_strips:
  "py_strip ''db'' = ''db''" "py_strip ''rows'' = ''rows''" "py_strip ''JaneDoe'' = ''JaneDoe''"
  by (simp_all add: py_strip_def py_isspace_def code_of_def)

lemmas upload_eval =
  upload_excel_file_def upload_excel_file_with_def form_get_def sample_strips
  sample_filename_match ends_with_def Let_def insert_one_def job_doc_def store_doc_def
  docs_of_def has_id_def ingest_rows_def process_rows_def append_row_def flush_data_def flush_errors_def
  batch_size_def ingest0_def finish_ingest_def insert_many_def dict_of_def data_doc_def
  error_doc_def final_status_def update_one_set_def set_fields_def int_of_digits_def
  digit_val_def code_of_def empty_store_def sample_env_def

lemma sample_upload_bad_200:
  "fst (fst (upload_excel_file_with department_required sample_env empty_store sample_upload_bad)) = 200"
  by (simp add: upload_eval sample_upload_bad_def department_required_def)

text \<open>
  C4. Whenever the upload reaches its terminal update (it answers 200), the job record holds
  totalRows = the number of data rows of the sheet (header excluded), validRows = the number
  of rows the validator accepts, invalidRows = the number of rows it rejects, and
  totalRows = validRows + invalidRows. This holds for any validator, the constant one of the
  source included.
\<close>

theorem ingest_total_eq_valid_plus_invalid:
  assumes "upload_excel_file_with v env st req = ((200, b), st')"
  shows "\<exists>f hdr rows. upload req = Some f \<and> sheet_rows f = Some (hdr # rows) \<and>
      job_field st' (py_strip (form_get (form req) ''database'')) (uuid_str (uuid4 env))
        ''totalRows'' = Some (PInt (int (length rows))) \<and>
      job_field st' (py_strip (form_get (form req) ''database'')) (uuid_str (uuid4 env))
        ''validRows'' = Some (PInt (int (length (filter (row_valid v hdr) rows)))) \<and>
      job_field st' (py_strip (form_get (form req) ''database'')) (uuid_str (uuid4 env))
        ''invalidRows'' = Some (PInt (int (length (filter (\<lambda>r. \<not> row_valid v hdr r) rows)))) \<and>
      int (length rows) = int (length (filter (row_valid v hdr) rows)) +
                          int (length (filter (\<lambda>r. \<not> row_valid v hdr r) rows))"
proof -
  from upload_200_job[OF assms] obtain f hdr rows d' where
    *: "upload req = Some f" "sheet_rows f = Some (hdr # rows)"
    "find_one_id st' (py_strip (form_get (form req) ''database'')) ''file_uploads''
        (PStr (uuid_str (uuid4 env))) = Some d'"
    "map_of d' ''totalRows'' = Some (PInt (int (length rows)))"
    "map_of d' ''validRows'' = Some (PInt (int (length (filter (row_valid v hdr) rows))))"
    "map_of d' ''invalidRows'' =
        Some (PInt (int (length (filter (\<lambda>r. \<not> row_valid v hdr r) rows))))"
    by blast
  have "length rows = length (filter (row_valid v hdr) rows) +
                      length (filter (\<lambda>r. \<not> row_valid v hdr r) rows)"
    by (rule sum_length_filter_compl [symmetric])
  then have "int (length rows) = int (length (filter (row_valid v hdr) rows)) +
                      int (length (filter (\<lambda>r. \<not> row_valid v hdr r) rows))"
    by linarith
  with * show ?thesis by (simp add: job_field_def)
qed

theorem ingest_total_eq_valid_plus_invalid_witness:
  "fst (fst (upload_excel_file_with department_required sample_env empty_store sample_upload_bad)) = 200 \<and>
   job_field (snd (upload_excel_file_with department_required sample_env empty_store sample_upload_bad))
     ''db'' (uuid_str 7) ''totalRows'' = Some (PInt 3) \<and>
   job_field (snd (upload_excel_file_with department_required sample_env empty_store sample_upload_bad))
     ''db'' (uuid_str 7) ''validRows'' = Some (PInt 2) \<and>
   job_field (snd (upload_excel_file_with department_required sample_env empty_store sample_upload_bad))
     ''db'' (uuid_str 7) ''invalidRows'' = Some (PInt 1)"
proof -
  let ?r = "upload_excel_file_with department_required sample_env empty_store sample_upload_bad"
  have h: "?r = ((200, snd (fst ?r)), snd ?r)"
    using sample_upload_bad_200 by (simp add: prod_eq_iff)
  from ingest_total_eq_valid_plus_invalid[OF h]
  show ?thesis
    using sample_upload_bad_200
    by (simp add: sample_upload_bad_def sample_env_def form_get_def sample_strips
        row_valid_def department_required_def dict_of_def)
qed

lemma sample_upload_200:
  "fst (fst (upload_excel_file sample_env empty_store sample_upload)) = 200"
  by (simp add: upload_eval sample_upload_def)

lemma sample_upload_job_status:
  "job_field (snd (upload_excel_file sample_env empty_store sample_upload))
     ''db'' (uuid_str 7) ''status'' = Some (PStr ''compeleted'') \<and>
   job_field (snd (upload_excel_file sample_env empty_store sample_upload))
     ''db'' (uuid_str 7) ''invalidRows'' = Some (PInt 0)"
proof -
  let ?r = "upload_excel_file sample_env empty_store sample_upload"
  have h: "upload_excel_file_with (\<lambda>row. []) sample_env empty_store sample_upload =
             ((200, snd (fst ?r)), snd ?r)"
    using sample_upload_200 by (simp add: prod_eq_iff upload_excel_file_def)
  from upload_200_job[OF h]
  show ?thesis
    by (auto simp: job_field_def sample_upload_def sample_env_def form_get_def sample_strips
        row_valid_def final_status_def)
qed

text \<open>
  C1. The status written by the terminal update is \<open>failed\<close> when the invalid-row count is
  positive; otherwise the source writes the string \<open>compeleted\<close>. For the sample upload,
  whose two data rows are both valid, the handler answers 200 and the job record ends with
  status \<open>compeleted\<close>, which is not the string \<open>completed\<close>.
\<close>

theorem all_valid_upload_status_is_misspelled:
  "fst (fst (upload_excel_file sample_env empty_store sample_upload)) = 200 \<and>
   job_field (snd (upload_excel_file sample_env empty_store sample_upload))
     ''db'' (uuid_str 7) ''status'' = Some (PStr ''compeleted'') \<and>
   job_field (snd (upload_excel_file sample_env empty_store sample_upload))
     ''db'' (uuid_str 7) ''invalidRows'' = Some (PInt 0) \<and>
   job_field (snd (upload_excel_file sample_env empty_store sample_upload))
     ''db'' (uuid_str 7) ''status'' \<noteq> Some (PStr ''completed'')"
  using sample_upload_200 sample_upload_job_status by simp

section \<open>The batch buffers\<close>

lemma append_row_buffers:
  "length (data_buffer (append_row ctx i r s)) \<le> Suc (length (data_buffer s))"
  "length (error_buffer (append_row ctx i r s)) \<le> Suc (length (error_buffer s))"
  by (simp_all add: append_row_def Let_def)

lemma flush_data_bound:
  assumes "flush_data ctx s st = (Inr s', st')"
  shows "length (data_buffer s') < batch_size"
  using assms by (auto simp: flush_data_def batch_size_def split: if_splits prod.splits option.splits)

lemma flush_errors_bound:
  assumes "flush_errors ctx s st = (Inr s', st')"
  shows "length (error_buffer s') < batch_size"
  using assms by (auto simp: flush_errors_def batch_size_def split: if_splits prod.splits option.splits)

lemma run_rows_bounded:
  assumes "run_rows ctx i rows s st = (tr, r, st')"
    and "length (data_buffer s) < batch_size" and "length (error_buffer s) < batch_size"
  shows "(\<forall>p \<in> set tr. length (data_buffer p) \<le> batch_size \<and> length (error_buffer p) \<le> batch_size) \<and>
         (\<forall>s'. r = Inr s' \<longrightarrow> length (data_buffer s') < batch_size \<and> length (error_buffer s') < batch_size)"
  using assms
proof (induction rows arbitrary: i s st tr r st')
  case Nil
  then show ?case by auto
next
  case (Cons row rows)
  let ?s1 = "append_row ctx i row s"
  have b1: "length (data_buffer ?s1) \<le> batch_size" "length (error_buffer ?s1) \<le> batch_size"
    using append_row_buffers[of ctx i row s] Cons.prems(2,3) by auto
  obtain r1 st1 where f1: "flush_data ctx ?s1 st = (r1, st1)" by (cases "flush_data ctx ?s1 st")
  show ?case
  proof (cases r1)
    case (Inl e)
    with Cons.prems(1) f1 have "tr = [?s1]" "r = Inl e" by (simp_all add: Let_def)
    with b1 show ?thesis by simp
  next
    case (Inr s2)
    with f1 have b2: "length (data_buffer s2) < batch_size" "length (error_buffer s2) \<le> batch_size"
      using flush_data_bound[of ctx ?s1 st s2 st1] flush_data_counters(4)[of ctx ?s1 st s2 st1] b1
      by auto
    obtain r2 st2 where f2: "flush_errors ctx s2 st1 = (r2, st2)" by (cases "flush_errors ctx s2 st1")
    show ?thesis
    proof (cases r2)
      case (Inl e)
      with Cons.prems(1) f1 f2 Inr have "tr = [?s1, s2]" "r = Inl e" by (simp_all add: Let_def)
      with b1 b2 show ?thesis by simp
    next
      case r2: (Inr s3)
      with f2 have b3: "length (data_buffer s3) < batch_size" "length (error_buffer s3) < batch_size"
        using flush_errors_bound[of ctx s2 st1 s3 st2] flush_errors_counters(4)[of ctx s2 st1 s3 st2] b2
        by auto
      obtain tr3 r3 st3 where rec: "run_rows ctx (i + 1) rows s3 st2 = (tr3, r3, st3)"
        by (cases "run_rows ctx (i + 1) rows s3 st2") auto
      with Cons.prems(1) f1 f2 Inr r2 have eq: "tr = ?s1 # s2 # s3 # tr3" "r = r3"
        by (simp_all add: Let_def)
      from Cons.IH[OF rec b3] eq b1 b2 b3 show ?thesis by auto
    qed
  qed
qed

subsection \<open>Flushes of a sheet whose rows are all valid\<close>

lemma fold_update_keys:
  "fst ` set (fold (\<lambda>(k, v). AList.update k v) kvs d) = fst ` set kvs \<union> fst ` set d"
proof (induction kvs arbitrary: d)
  case Nil
  then show ?case by simp
next
  case (Cons kv kvs)
  obtain k v where kv: "kv = (k, v)" by (cases kv)
  have "fst ` set (fold (\<lambda>(k, v). AList.update k v) (kv # kvs) d) =
          fst ` set kvs \<union> fst ` set (AList.update k v d)"
    using Cons.IH[of "AList.update k v d"] kv by simp
  also have "\<dots> = fst ` set kvs \<union> ({k} \<union> fst ` set d)"
    by (simp only: dom_update)
  finally show ?case using kv by auto
qed

lemma data_doc_keys:
  "fst ` set (data_doc fid i (dict_of (zip hdr row)) t) \<subseteq>
     {PStr ''fileId'', PStr ''rowNumber'', PStr ''createdAt''} \<union> set hdr"
proof -
  have "fst ` set (dict_of (zip hdr row)) \<subseteq> set hdr"
    unfolding dict_of_def fold_update_keys by (auto dest: set_zip_leftD)
  then show ?thesis
    unfolding data_doc_def dom_update fold_update_keys by auto
qed

lemma encode_doc_plain:
  assumes "\<forall>k \<in> fst ` set d. plain_header k"
  shows "\<exists>e. encode_doc d = Some e \<and> map_of e ''_id'' = None"
  using assms
proof (induction d)
  case Nil
  then show ?case by simp
next
  case (Cons kv d)
  obtain k v where kv: "kv = (k, v)" by (cases kv)
  with Cons.prems obtain name where k: "k = PStr name" "name \<noteq> ''_id''"
    by (cases k) (auto simp: plain_header_def)
  from Cons obtain e where "encode_doc d = Some e" "map_of e ''_id'' = None" by auto
  with kv k show ?case by simp
qed

lemma encode_docs_plain:
  assumes "\<forall>d \<in> set ds. \<forall>k \<in> fst ` set d. plain_header k"
  shows "\<exists>es. encode_docs ds = Some es \<and> (\<forall>e \<in> set es. map_of e ''_id'' = None)"
  using assms
proof (induction ds)
  case Nil
  then show ?case by simp
next
  case (Cons d ds)
  then obtain es where es: "encode_docs ds = Some es" "\<forall>e \<in> set es. map_of e ''_id'' = None"
    by auto
  from Cons.prems encode_doc_plain[of d] obtain e where "encode_doc d = Some e" "map_of e ''_id'' = None"
    by auto
  with es show ?case by simp
qed

lemma store_docs_generated_ids:
  assumes "\<forall>e \<in> set es. map_of e ''_id'' = None"
  shows "\<exists>st'. store_docs st db c es = (None, st') \<and> bulk_log st' = bulk_log st"
  using assms
proof (induction es arbitrary: st)
  case Nil
  then show ?case by simp
next
  case (Cons e es)
  let ?st1 = "st\<lparr>colls := (colls st)((db, c) \<mapsto>
                     docs_of st db c @ [(''_id'', PObjectId (hex_fixed 24 (next_oid st))) # e]),
                   next_oid := Suc (next_oid st)\<rparr>"
  from Cons.prems have sd: "store_doc st db c e = Inr ?st1"
    by (simp add: store_doc_def)
  from Cons.IH[of ?st1] Cons.prems obtain st' where
    "store_docs ?st1 db c es = (None, st')" "bulk_log st' = bulk_log ?st1" by auto
  with sd show ?case by simp
qed

lemma insert_many_plain:
  assumes "ds \<noteq> []" and "\<forall>d \<in> set ds. \<forall>k \<in> fst ` set d. plain_header k"
  shows "\<exists>st'. insert_many st db c ds = (None, st') \<and>
               bulk_log st' = bulk_log st @ [(db, c, length ds)]"
proof -
  from encode_docs_plain[OF assms(2)] obtain es where
    es: "encode_docs ds = Some es" "\<forall>e \<in> set es. map_of e ''_id'' = None" by blast
  from store_docs_generated_ids[OF es(2), of "st\<lparr>bulk_log := bulk_log st @ [(db, c, length ds)]\<rparr>" db c]
  obtain st' where "store_docs (st\<lparr>bulk_log := bulk_log st @ [(db, c, length ds)]\<rparr>) db c es = (None, st')"
    "bulk_log st' = bulk_log st @ [(db, c, length ds)]" by auto
  with assms(1) es(1) show ?thesis by (simp add: insert_many_def)
qed

lemma append_row_valid:
  assumes "row_valid (validate ctx) (headers ctx) row"
  shows "append_row ctx i row s =
     s\<lparr>total_cnt := total_cnt s + 1, valid_cnt := valid_cnt s + 1,
       data_buffer := data_buffer s @
         [data_doc (job_id ctx) i (dict_of (zip (headers ctx) row)) (clock ctx i)]\<rparr>"
  using assms by (simp add: append_row_def row_valid_def Let_def)

lemma data_doc_plain:
  assumes "\<forall>h \<in> set hdr. plain_header h"
  shows "\<forall>k \<in> fst ` set (data_doc fid i (dict_of (zip hdr row)) t). plain_header k"
proof
  fix k assume "k \<in> fst ` set (data_doc fid i (dict_of (zip hdr row)) t)"
  with data_doc_keys[of fid i hdr row t]
  have "k \<in> {PStr ''fileId'', PStr ''rowNumber'', PStr ''createdAt''} \<union> set hdr" by blast
  with assms show "plain_header k" by (auto simp: plain_header_def)
qed

lemma run_rows_all_valid:
  assumes hdr: "\<forall>h \<in> set (headers ctx). plain_header h"
    and rows: "\<forall>r \<in> set rows. row_valid (validate ctx) (headers ctx) r"
    and eb: "error_buffer s = []"
    and db: "length (data_buffer s) < batch_size"
    and plain: "\<forall>d \<in> set (data_buffer s). \<forall>k \<in> fst ` set d. plain_header k"
  shows "\<exists>tr s' st'. run_rows ctx i rows s st = (tr, Inr s', st') \<and>
           error_buffer s' = [] \<and>
           (\<forall>d \<in> set (data_buffer s'). \<forall>k \<in> fst ` set d. plain_header k) \<and>
           length (data_buffer s') = (length (data_buffer s) + length rows) mod batch_size \<and>
           bulk_log st' = bulk_log st @
             replicate ((length (data_buffer s) + length rows) div batch_size)
               (db_name ctx, coll_name ctx, batch_size)"
  using rows eb db plain
proof (induction rows arbitrary: i s st)
  case Nil
  then show ?case by simp
next
  case (Cons row rows)
  let ?doc = "data_doc (job_id ctx) i (dict_of (zip (headers ctx) row)) (clock ctx i)"
  let ?s1 = "append_row ctx i row s"
  from Cons.prems(1) have s1: "?s1 = s\<lparr>total_cnt := total_cnt s + 1, valid_cnt := valid_cnt s + 1,
       data_buffer := data_buffer s @ [?doc]\<rparr>"
    by (simp add: append_row_valid)
  have p1: "\<forall>d \<in> set (data_buffer ?s1). \<forall>k \<in> fst ` set d. plain_header k"
    using Cons.prems(4) data_doc_plain[OF hdr] by (auto simp: s1)
  have l1: "length (data_buffer ?s1) = Suc (length (data_buffer s))" by (simp add: s1)
  have e1: "error_buffer ?s1 = []" using Cons.prems(2) by (simp add: s1)
  show ?case
  proof (cases "batch_size \<le> length (data_buffer ?s1)")
    case True
    with l1 Cons.prems(3) have full: "length (data_buffer ?s1) = batch_size" by simp
    then have "data_buffer ?s1 \<noteq> []" by (auto simp: batch_size_def)
    from insert_many_plain[OF this p1, of st "db_name ctx" "coll_name ctx"]
    obtain st1 where
      im: "insert_many st (db_name ctx) (coll_name ctx) (data_buffer ?s1) = (None, st1)"
      and lg: "bulk_log st1 = bulk_log st @ [(db_name ctx, coll_name ctx, batch_size)]"
      by (auto simp: full)
    let ?s2 = "?s1\<lparr>data_buffer := []\<rparr>"
    from True im have f1: "flush_data ctx ?s1 st = (Inr ?s2, st1)"
      by (simp add: flush_data_def)
    have f2: "flush_errors ctx ?s2 st1 = (Inr ?s2, st1)"
      using e1 by (simp add: flush_errors_def batch_size_def)
    have "\<exists>tr s' st'. run_rows ctx (i + 1) rows ?s2 st1 = (tr, Inr s', st') \<and>
           error_buffer s' = [] \<and>
           (\<forall>d \<in> set (data_buffer s'). \<forall>k \<in> fst ` set d. plain_header k) \<and>
           length (data_buffer s') = (length (data_buffer ?s2) + length rows) mod batch_size \<and>
           bulk_log st' = bulk_log st1 @
             replicate ((length (data_buffer ?s2) + length rows) div batch_size)
               (db_name ctx, coll_name ctx, batch_size)"
      using Cons.prems(1) e1 by (intro Cons.IH) (auto simp: batch_size_def)
    then obtain tr s' st' where rec: "run_rows ctx (i + 1) rows ?s2 st1 = (tr, Inr s', st')"
      and r1: "error_buffer s' = []"
      and r2: "\<forall>d \<in> set (data_buffer s'). \<forall>k \<in> fst ` set d. plain_header k"
      and r3: "length (data_buffer s') = length rows mod batch_size"
      and r4: "bulk_log st' = bulk_log st1 @
             replicate (length rows div batch_size)
               (db_name ctx, coll_name ctx, batch_size)"
      by auto
    have run: "run_rows ctx i (row # rows) s st = (?s1 # ?s2 # ?s2 # tr, Inr s', st')"
      using f1 f2 rec by (simp add: Let_def)
    from full l1 have k: "Suc (length (data_buffer s)) = batch_size" by simp
    have a1: "(length (data_buffer s) + length (row # rows)) mod batch_size = length rows mod batch_size"
      using k by (metis add_Suc add_Suc_right length_Cons mod_add_self1)
    have a2: "(length (data_buffer s) + length (row # rows)) div batch_size =
                Suc (length rows div batch_size)"
    proof -
      have eq: "length (data_buffer s) + length (row # rows) = length rows + batch_size"
        using k by simp
      have "(length rows + batch_size) div batch_size = length rows div batch_size + 1"
        by (rule div_add_self2) (simp add: batch_size_def)
      then show ?thesis unfolding eq by simp
    qed
    show ?thesis
      unfolding run a1 a2 using r1 r2 r3 r4 lg
      by (simp add: replicate_append_same [symmetric])
  next
    case False
    then have f1: "flush_data ctx ?s1 st = (Inr ?s1, st)" by (simp add: flush_data_def)
    have f2: "flush_errors ctx ?s1 st = (Inr ?s1, st)"
      using e1 by (simp add: flush_errors_def batch_size_def)
    have "\<exists>tr s' st'. run_rows ctx (i + 1) rows ?s1 st = (tr, Inr s', st') \<and>
           error_buffer s' = [] \<and>
           (\<forall>d \<in> set (data_buffer s'). \<forall>k \<in> fst ` set d. plain_header k) \<and>
           length (data_buffer s') = (length (data_buffer ?s1) + length rows) mod batch_size \<and>
           bulk_log st' = bulk_log st @
             replicate ((length (data_buffer ?s1) + length rows) div batch_size)
               (db_name ctx, coll_name ctx, batch_size)"
      using Cons.prems(1) e1 p1 False by (intro Cons.IH) auto
    then obtain tr s' st' where rec: "run_rows ctx (i + 1) rows ?s1 st = (tr, Inr s', st')"
      and r: "error_buffer s' = []"
        "\<forall>d \<in> set (data_buffer s'). \<forall>k \<in> fst ` set d. plain_header k"
        "length (data_buffer s') = (length (data_buffer ?s1) + length rows) mod batch_size"
        "bulk_log st' = bulk_log st @
             replicate ((length (data_buffer ?s1) + length rows) div batch_size)
               (db_name ctx, coll_name ctx, batch_size)"
      by auto
    have run: "run_rows ctx i (row # rows) s st = (?s1 # ?s1 # ?s1 # tr, Inr s', st')"
      using f1 f2 rec by (simp add: Let_def)
    show ?thesis
      unfolding run using r by (simp add: l1)
  qed
qed

lemma update_one_set_bulk_log [simp]:
  "bulk_log (update_one_set st db c i upd) = bulk_log st"
  by (simp add: update_one_set_def split: option.splits)

lemma ingest_rows_all_valid:
  assumes hdr: "\<forall>h \<in> set (headers ctx). plain_header h"
    and rows: "\<forall>r \<in> set rows. row_valid (validate ctx) (headers ctx) r"
  shows "fst (fst (ingest_rows ctx fname rows st)) = 200 \<and>
         bulk_log (snd (ingest_rows ctx fname rows st)) =
           bulk_log st @
           replicate (length rows div batch_size)
             (db_name ctx, coll_name ctx, batch_size) @
           (if length rows mod batch_size = 0 then []
            else [(db_name ctx, coll_name ctx, length rows mod batch_size)])"
proof -
  let ?e = "(db_name ctx, coll_name ctx, batch_size)"
  from run_rows_all_valid[OF hdr rows, of ingest0 2 st]
  obtain tr s' st' where run: "run_rows ctx 2 rows ingest0 st = (tr, Inr s', st')"
    and eb: "error_buffer s' = []"
    and plain: "\<forall>d \<in> set (data_buffer s'). \<forall>k \<in> fst ` set d. plain_header k"
    and len: "length (data_buffer s') = length rows mod batch_size"
    and lg: "bulk_log st' = bulk_log st @ replicate (length rows div batch_size) ?e"
    by (auto simp: ingest0_def batch_size_def)
  have pr: "process_rows ctx 2 rows ingest0 st = (Inr s', st')"
    using run by (simp add: process_rows_def)
  show ?thesis
  proof (cases "data_buffer s' = []")
    case True
    with len have m: "length rows mod batch_size = 0" by simp
    from True eb have "finish_ingest ctx fname s' st' =
      ((200, Json (PDict
                   [(''fileId'', PStr (job_id ctx)),
                    (''database'', PStr (db_name ctx)),
                    (''collection'', PStr (coll_name ctx)),
                    (''filename'', PStr fname),
                    (''status'', PStr (final_status (invalid_cnt s'))),
                    (''totalRows'', PInt (total_cnt s')),
                    (''validRows'', PInt (valid_cnt s')),
                    (''invalidRows'', PInt (invalid_cnt s'))])),
       update_one_set st' (db_name ctx) ''file_uploads'' (PStr (job_id ctx))
                  [(''status'', PStr (final_status (invalid_cnt s'))),
                   (''totalRows'', PInt (total_cnt s')),
                   (''validRows'', PInt (valid_cnt s')),
                   (''invalidRows'', PInt (invalid_cnt s'))])"
      by (simp add: finish_ingest_def)
    with pr m lg show ?thesis by (simp add: ingest_rows_def)
  next
    case False
    then have "length (data_buffer s') \<noteq> 0" by simp
    with len have m: "length rows mod batch_size \<noteq> 0" by simp
    from insert_many_plain[OF False plain, of st' "db_name ctx" "coll_name ctx"]
    obtain st2 where
      im: "insert_many st' (db_name ctx) (coll_name ctx) (data_buffer s') = (None, st2)"
      and lg2: "bulk_log st2 = bulk_log st' @
                  [(db_name ctx, coll_name ctx, length rows mod batch_size)]"
      by (auto simp: len)
    from False eb im have "finish_ingest ctx fname s' st' =
      ((200, Json (PDict
                   [(''fileId'', PStr (job_id ctx)),
                    (''database'', PStr (db_name ctx)),
                    (''collection'', PStr (coll_name ctx)),
                    (''filename'', PStr fname),
                    (''status'', PStr (final_status (invalid_cnt s'))),
                    (''totalRows'', PInt (total_cnt s')),
                    (''validRows'', PInt (valid_cnt s')),
                    (''invalidRows'', PInt (invalid_cnt s'))])),
       update_one_set st2 (db_name ctx) ''file_uploads'' (PStr (job_id ctx))
                  [(''status'', PStr (final_status (invalid_cnt s'))),
                   (''totalRows'', PInt (total_cnt s')),
                   (''validRows'', PInt (valid_cnt s')),
                   (''invalidRows'', PInt (invalid_cnt s'))])"
      by (simp add: finish_ingest_def)
    with pr m lg lg2 show ?thesis by (simp add: ingest_rows_def)
  qed
qed

text \<open>
  C8. From empty buffers, at every program point of the row loop (after the append and
  after each of the two flush tests of every iteration) the row-record buffer and the
  row-error buffer hold at most 500 entries; when the loop ends normally both hold fewer
  than 500, so each was flushed as soon as it reached 500; and for a sheet whose header
  cells are strings other than \<^verbatim>\<open>_id\<close> and whose rows are all valid, the ingestion
  answers 200 and the bulk writes it issues are one batch of 500 for every full 500 rows
  followed by one batch with the remainder, when there is one.
\<close>

theorem buffers_never_exceed_batch_size:
  "(\<forall>p \<in> set (loop_points ctx 2 rows ingest0 st).
       length (data_buffer p) \<le> 500 \<and> length (error_buffer p) \<le> 500) \<and>
   (\<forall>s' st'. process_rows ctx 2 rows ingest0 st = (Inr s', st') \<longrightarrow>
       length (data_buffer s') < 500 \<and> length (error_buffer s') < 500) \<and>
   ((\<forall>h \<in> set (headers ctx). plain_header h) \<and>
    (\<forall>r \<in> set rows. row_valid (validate ctx) (headers ctx) r) \<longrightarrow>
       fst (fst (ingest_rows ctx fname rows st)) = 200 \<and>
       bulk_log (snd (ingest_rows ctx fname rows st)) =
         bulk_log st @
         replicate (length rows div 500) (db_name ctx, coll_name ctx, 500) @
         (if length rows mod 500 = 0 then []
          else [(db_name ctx, coll_name ctx, length rows mod 500)]))"
proof -
  obtain tr r st' where run: "run_rows ctx 2 rows ingest0 st = (tr, r, st')"
    by (cases "run_rows ctx 2 rows ingest0 st") auto
  have "length (data_buffer ingest0) < batch_size" "length (error_buffer ingest0) < batch_size"
    by (simp_all add: ingest0_def batch_size_def)
  from run_rows_bounded[OF run this]
  have a: "\<forall>p \<in> set (loop_points ctx 2 rows ingest0 st).
       length (data_buffer p) \<le> 500 \<and> length (error_buffer p) \<le> 500"
    and b: "\<forall>s' st'. process_rows ctx 2 rows ingest0 st = (Inr s', st') \<longrightarrow>
       length (data_buffer s') < 500 \<and> length (error_buffer s') < 500"
    using run by (auto simp: loop_points_def process_rows_def batch_size_def)
  have c: "(\<forall>h \<in> set (headers ctx). plain_header h) \<and>
    (\<forall>r \<in> set rows. row_valid (validate ctx) (headers ctx) r) \<longrightarrow>
       fst (fst (ingest_rows ctx fname rows st)) = 200 \<and>
       bulk_log (snd (ingest_rows ctx fname rows st)) =
         bulk_log st @
         replicate (length rows div 500) (db_name ctx, coll_name ctx, 500) @
         (if length rows mod 500 = 0 then []
          else [(db_name ctx, coll_name ctx, length rows mod 500)])"
    using ingest_rows_all_valid[of ctx rows fname st] by (simp add: batch_size_def)
  from a b c show ?thesis by blast
qed

theorem buffers_never_exceed_batch_size_witness:
  "list_all (\<lambda>p. length (data_buffer p) \<le> 500 \<and> length (error_buffer p) \<le> 500)
     (loop_points sample_ctx 2 (replicate 1200 [PStr ''IT'', PInt 5]) ingest0 empty_store) \<and>
   fst (fst (ingest_rows sample_ctx ''f.xlsx'' (replicate 1200 [PStr ''IT'', PInt 5]) empty_store)) = 200 \<and>
   bulk_log (snd (ingest_rows sample_ctx ''f.xlsx'' (replicate 1200 [PStr ''IT'', PInt 5]) empty_store)) =
     [(''db'', ''rows'', 500), (''db'', ''rows'', 500), (''db'', ''rows'', 200)]"
proof -
  have h: "\<forall>h \<in> set (headers sample_ctx). plain_header h"
    by (simp add: sample_ctx_def plain_header_def)
  have r: "\<forall>r \<in> set (replicate 1200 [PStr ''IT'', PInt 5]).
             row_valid (validate sample_ctx) (headers sample_ctx) r"
    by (simp add: sample_ctx_def row_valid_def)
  have rep: "replicate 2 (''db'', ''rows'', 500::nat) = [(''db'', ''rows'', 500), (''db'', ''rows'', 500)]"
    by (simp add: numeral_2_eq_2)
  from buffers_never_exceed_batch_size
         [of sample_ctx "replicate 1200 [PStr ''IT'', PInt 5]" empty_store "''f.xlsx''"] h r
  show ?thesis
    by (simp add: list_all_iff sample_ctx_def empty_store_def rep)
qed

section \<open>Deleting an uploaded file\<close>

lemma length_hex_fixed [simp]: "length (hex_fixed w n) = w"
  by (induction w arbitrary: n) auto

lemma length_uuid_str: "length (uuid_str u) = 36"
  by (simp add: uuid_str_def Let_def)

lemma ObjectId_uuid_str: "ObjectId (PStr (uuid_str u)) = Inl InvalidId"
  by (simp add: ObjectId_def length_uuid_str)

lemma uuid_str_truthy: "truthy (PStr (uuid_str u))"
  using length_uuid_str[of u] by auto

lemma ObjectId_result:
  assumes "ObjectId v = Inr oid"
  shows "\<exists>h. oid = PObjectId h"
  using assms by (cases v) (auto simp: ObjectId_def split: if_splits option.splits)

lemma remove_first_keeps:
  "\<not> P d \<Longrightarrow> d \<in> set ds \<Longrightarrow> d \<in> set (remove_first P ds)"
  by (induction ds) auto

lemma delete_many_keeps:
  assumes "d \<in> set (docs_of st db c)" and "\<not> P d"
  shows "d \<in> set (docs_of (snd (delete_many st db' c' P)) db c)"
  using assms by (auto simp: delete_many_def docs_of_def split: option.splits)

lemma delete_one_keeps:
  assumes "d \<in> set (docs_of st db c)" and "\<not> P d"
  shows "d \<in> set (docs_of (delete_one st db' c' P) db c)"
  using assms by (auto simp: delete_one_def docs_of_def remove_first_keeps split: option.splits)

lemma delete_keeps_string_ids:
  assumes d: "d0 \<in> set (docs_of st db c)"
    and id: "map_of d0 ''_id'' = Some (PStr s)"
    and nf: "map_of d0 ''fileId'' = None"
  shows "d0 \<in> set (docs_of (snd (delete_uploaded_file st data)) db c)"
proof (cases "fst (fst (delete_uploaded_file st data)) = 200")
  case False
  then have "snd (delete_uploaded_file st data) = st"
    by (auto simp: delete_uploaded_file_def Let_def split: sum.splits if_splits option.splits prod.splits)
  with d show ?thesis by simp
next
  case True
  then obtain dd dbn fc dc oid where
    "as_dict data = Inr dd" and "strip_field dd ''database'' = Inr dbn"
    and "strip_field dd ''file_collection'' = Inr fc" and "strip_field dd ''data_collection'' = Inr dc"
    and oid: "ObjectId (dict_get dd ''fileId'' PNone) = Inr oid"
    and st': "snd (delete_uploaded_file st data) =
       delete_one (snd (delete_many st dbn dc (field_eq ''fileId'' oid))) dbn fc (has_id oid)"
    by (auto simp: delete_uploaded_file_def Let_def split: sum.splits if_splits option.splits prod.splits)
  from ObjectId_result[OF oid] obtain h where h: "oid = PObjectId h" by blast
  have n1: "\<not> field_eq ''fileId'' oid d0" using nf by (simp add: field_eq_def)
  have n2: "\<not> has_id oid d0" using id h by (simp add: has_id_def)
  from d n1
  have "d0 \<in> set (docs_of (snd (delete_many st dbn dc (field_eq ''fileId'' oid))) db c)"
    by (rule delete_many_keeps)
  then have "d0 \<in> set (docs_of (delete_one (snd (delete_many st dbn dc (field_eq ''fileId'' oid)))
                       dbn fc (has_id oid)) db c)"
    using n2 by (rule delete_one_keeps)
  with st' show ?thesis by simp
qed

text \<open>
  C10. The upload gives its job the identifier \<^verbatim>\<open>str(uuid.uuid4())\<close>, a string of 36
  characters. A delete request that names this identifier never deletes anything: the
  store is unchanged and the response is a client or server error; when the three names of
  the request are non-blank strings the response is the server error raised by
  \<^verbatim>\<open>ObjectId(file_id)\<close>. Moreover no delete request whatever removes a document whose
  \<^verbatim>\<open>_id\<close> is a string and that has no \<^verbatim>\<open>fileId\<close> field, as a job record is.
\<close>

theorem uuid_job_cannot_be_deleted:
  assumes "data = PDict d" and "map_of d ''fileId'' = Some (PStr (uuid_str u))"
  shows "snd (delete_uploaded_file st data) = st \<and>
         fst (fst (delete_uploaded_file st data)) \<in> {400, 500} \<and>
         (\<forall>db fc dc. strip_field d ''database'' = Inr db \<and> db \<noteq> [] \<and>
                     strip_field d ''file_collection'' = Inr fc \<and> fc \<noteq> [] \<and>
                     strip_field d ''data_collection'' = Inr dc \<and> dc \<noteq> [] \<longrightarrow>
            fst (delete_uploaded_file st data) = (500, ErrorOf InvalidId)) \<and>
         (\<forall>data' d0 db c s. d0 \<in> set (docs_of st db c) \<and> map_of d0 ''_id'' = Some (PStr s) \<and>
                     map_of d0 ''fileId'' = None \<longrightarrow>
            d0 \<in> set (docs_of (snd (delete_uploaded_file st data')) db c))"
proof -
  have fid: "dict_get d ''fileId'' PNone = PStr (uuid_str u)"
    using assms(2) by (simp add: dict_get_def)
  have a: "snd (delete_uploaded_file st data) = st"
    using assms(1) fid
    by (auto simp: delete_uploaded_file_def as_dict_def Let_def ObjectId_uuid_str split: sum.splits)
  have b: "fst (fst (delete_uploaded_file st data)) \<in> {400, 500}"
    using assms(1) fid
    by (auto simp: delete_uploaded_file_def as_dict_def Let_def ObjectId_uuid_str split: sum.splits)
  have c: "\<forall>db fc dc. strip_field d ''database'' = Inr db \<and> db \<noteq> [] \<and>
                     strip_field d ''file_collection'' = Inr fc \<and> fc \<noteq> [] \<and>
                     strip_field d ''data_collection'' = Inr dc \<and> dc \<noteq> [] \<longrightarrow>
            fst (delete_uploaded_file st data) = (500, ErrorOf InvalidId)"
    using assms(1) fid uuid_str_truthy[of u]
    by (auto simp: delete_uploaded_file_def as_dict_def Let_def ObjectId_uuid_str)
  from a b c delete_keeps_string_ids show ?thesis by blast
qed

theorem uuid_job_cannot_be_deleted_witness:
  "fst (delete_uploaded_file (snd (upload_excel_file sample_env empty_store sample_upload))
          sample_delete) = (500, ErrorOf InvalidId) \<and>
   snd (delete_uploaded_file (snd (upload_excel_file sample_env empty_store sample_upload))
          sample_delete) = snd (upload_excel_file sample_env empty_store sample_upload) \<and>
   job_field (snd (delete_uploaded_file (snd (upload_excel_file sample_env empty_store sample_upload))
          sample_delete)) ''db'' (uuid_str 7) ''status'' = Some (PStr ''compeleted'')"
proof -
  let ?d = "[(''database'', PStr ''db''), (''file_collection'', PStr ''file_uploads''),
            (''data_collection'', PStr ''rows''), (''fileId'', PStr (uuid_str 7))]"
  have 1: "sample_delete = PDict ?d" by (simp add: sample_delete_def)
  have 2: "map_of ?d ''fileId'' = Some (PStr (uuid_str 7))" by simp
  have 3: "strip_field ?d ''database'' = Inr ''db''"
    "strip_field ?d ''file_collection'' = Inr ''file_uploads''"
    "strip_field ?d ''data_collection'' = Inr ''rows''"
    by (simp_all add: strip_field_def dict_get_def py_strip_def py_isspace_def code_of_def)
  from uuid_job_cannot_be_deleted[OF 1 2, of "snd (upload_excel_file sample_env empty_store sample_upload)"]
  show ?thesis using 3 sample_upload_job_status by simp
qed


end
